theory Spec2Isabelle
  imports Main
begin

section \<open>The OtterAI client of \<^verbatim>\<open>src/server.js\<close>\<close>

text \<open>
  The class \<^verbatim>\<open>OtterAI\<close> is a stateful HTTP client: it keeps a user id, the cookies of
  the last login and the default \<^verbatim>\<open>Cookie\<close> header of its axios session, and every
  method is a short chain of network calls. The embedding makes the client's fields and
  the world (the requests sent so far, the files written) one state record, the remote
  side a function from the requests sent so far and the next request to what comes back,
  and a thrown exception the left summand of the result. \<^verbatim>\<open>console.log\<close> is not modelled.
\<close>

subsection \<open>JavaScript values\<close>

text \<open>
  Response bodies are whatever the remote side sent, so they are values of JavaScript's
  dynamic type. Numbers are the integers and \<^verbatim>\<open>NaN\<close> (HTTP statuses, lengths and their
  sums; fractions and infinities do not occur in what the client computes). A string is a
  list of 8-bit characters, one per code unit. An object is its list of own properties in
  the engine's property order, each name once.
\<close>

datatype jsval =
    JUndefined
  | JNull
  | JBool bool
  | JNum int
  | JNaN
  | JStr string
  | JArr "jsval list"
  | JObj "(string \<times> jsval) list"

text \<open>ToBoolean: the test of \<^verbatim>\<open>if (x)\<close>, \<^verbatim>\<open>!x\<close> and \<^verbatim>\<open>x || y\<close>.\<close>

fun truthy :: "jsval \<Rightarrow> bool" where
  "truthy JUndefined = False"
| "truthy JNull = False"
| "truthy (JBool b) = b"
| "truthy (JNum n) = (n \<noteq> 0)"
| "truthy JNaN = False"
| "truthy (JStr s) = (s \<noteq> [])"
| "truthy (JArr _) = True"
| "truthy (JObj _) = True"

fun join :: "string \<Rightarrow> string list \<Rightarrow> string" where
  "join sep [] = []"
| "join sep [x] = x"
| "join sep (x # y # ys) = x @ sep @ join sep (y # ys)"

fun digits :: "nat \<Rightarrow> string" where
  "digits n = (if n < 10 then [''0123456789'' ! n]
               else digits (n div 10) @ [''0123456789'' ! (n mod 10)])"

definition show_int :: "int \<Rightarrow> string" where
  "show_int i = (if i < 0 then CHR ''-'' # digits (nat (- i)) else digits (nat i))"

text \<open>\<^verbatim>\<open>String(x)\<close> and the conversion inside a template literal.\<close>

fun js_String :: "jsval \<Rightarrow> string" where
  "js_String JUndefined = ''undefined''"
| "js_String JNull = ''null''"
| "js_String (JBool b) = (if b then ''true'' else ''false'')"
| "js_String (JNum n) = show_int n"
| "js_String JNaN = ''NaN''"
| "js_String (JStr s) = s"
| "js_String (JArr xs) =
     join '','' (map (\<lambda>x. if x = JNull \<or> x = JUndefined then [] else js_String x) xs)"
| "js_String (JObj _) = ''[object Object]''"

text \<open>
  The binary \<^verbatim>\<open>+\<close>: arrays and objects become strings first, then a string on either
  side makes it a concatenation, and otherwise both sides become numbers.
\<close>

fun to_primitive :: "jsval \<Rightarrow> jsval" where
  "to_primitive (JArr xs) = JStr (js_String (JArr xs))"
| "to_primitive (JObj kvs) = JStr (js_String (JObj kvs))"
| "to_primitive v = v"

fun to_number :: "jsval \<Rightarrow> int option" where
  "to_number (JNum n) = Some n"
| "to_number JNull = Some 0"
| "to_number (JBool b) = Some (if b then 1 else 0)"
| "to_number _ = None"

fun is_string :: "jsval \<Rightarrow> bool" where
  "is_string (JStr _) = True"
| "is_string _ = False"

definition js_add :: "jsval \<Rightarrow> jsval \<Rightarrow> jsval" where
  "js_add a b =
     (let pa = to_primitive a; pb = to_primitive b in
      if is_string pa \<or> is_string pb then JStr (js_String pa @ js_String pb)
      else (case (to_number pa, to_number pb) of
              (Some x, Some y) \<Rightarrow> JNum (x + y)
            | _ \<Rightarrow> JNaN))"

text \<open>
  A \<^verbatim>\<open>TypeError\<close> carries a message whose wording is the engine's; the engine is a
  parameter that turns the kind of error into that wording.
\<close>

datatype type_error =
    ReadOfNullish jsval string
  | CreateOnPrimitive string jsval
  | NotIterable string

text \<open>
  Reading a property, \<^verbatim>\<open>v.k\<close>. The client reads only the names \<^verbatim>\<open>userid\<close>,
  \<^verbatim>\<open>data\<close>, \<^verbatim>\<open>speeches\<close>, \<^verbatim>\<open>length\<close>, \<^verbatim>\<open>success_action_status\<close>,
  \<^verbatim>\<open>PostResponse\<close>, \<^verbatim>\<open>Location\<close>, \<^verbatim>\<open>Bucket\<close> and \<^verbatim>\<open>Key\<close>; none of them is
  inherited from a prototype, and of them only \<^verbatim>\<open>length\<close> is a property of strings
  and arrays. Reading from \<^verbatim>\<open>null\<close> or \<^verbatim>\<open>undefined\<close> throws.
\<close>

fun js_get :: "jsval \<Rightarrow> string \<Rightarrow> type_error + jsval" where
  "js_get JUndefined k = Inl (ReadOfNullish JUndefined k)"
| "js_get JNull k = Inl (ReadOfNullish JNull k)"
| "js_get (JObj kvs) k = Inr (case map_of kvs k of None \<Rightarrow> JUndefined | Some v \<Rightarrow> v)"
| "js_get (JArr xs) k = Inr (if k = ''length'' then JNum (int (length xs)) else JUndefined)"
| "js_get (JStr s) k = Inr (if k = ''length'' then JNum (int (length s)) else JUndefined)"
| "js_get _ k = Inr JUndefined"

text \<open>Optional chaining, \<^verbatim>\<open>v?.k\<close>.\<close>

definition js_get_opt :: "jsval \<Rightarrow> string \<Rightarrow> jsval" where
  "js_get_opt v k = (case js_get v k of Inl _ \<Rightarrow> JUndefined | Inr x \<Rightarrow> x)"

text \<open>Spreading into an array literal, \<^verbatim>\<open>[...v]\<close>; \<open>src\<close> is the source text spread.\<close>

fun js_spread :: "string \<Rightarrow> jsval \<Rightarrow> type_error + jsval list" where
  "js_spread src (JArr xs) = Inr xs"
| "js_spread src (JStr s) = Inr (map (\<lambda>c. JStr [c]) s)"
| "js_spread src _ = Inl (NotIterable src)"

text \<open>
  Own properties. A name that is an array index (a canonical decimal below \<open>2^32 - 1\<close>)
  is listed before the other names, in ascending order; the other names are listed in
  the order they were created. Assigning to an existing name keeps its place.
\<close>

fun dec_value :: "string \<Rightarrow> nat" where
  "dec_value s = foldl (\<lambda>n c. 10 * n + (of_char c - 48)) 0 s"

definition is_index :: "string \<Rightarrow> bool" where
  "is_index s \<longleftrightarrow>
     s \<noteq> [] \<and> list_all (\<lambda>c. c \<in> set ''0123456789'') s \<and>
     (s = ''0'' \<or> hd s \<noteq> CHR ''0'') \<and> dec_value s \<le> 4294967294"

fun insert_index :: "string \<Rightarrow> 'v \<Rightarrow> (string \<times> 'v) list \<Rightarrow> (string \<times> 'v) list" where
  "insert_index k v [] = [(k, v)]"
| "insert_index k v ((k', v') # kvs) =
     (if is_index k' \<and> dec_value k' < dec_value k then (k', v') # insert_index k v kvs
      else (k, v) # (k', v') # kvs)"

definition obj_put :: "string \<Rightarrow> 'v \<Rightarrow> (string \<times> 'v) list \<Rightarrow> (string \<times> 'v) list" where
  "obj_put k v kvs =
     (if k \<in> fst ` set kvs then map (\<lambda>(k', v'). if k' = k then (k', v) else (k', v')) kvs
      else if is_index k then insert_index k v kvs
      else kvs @ [(k, v)])"

definition obj_delete :: "string \<Rightarrow> (string \<times> 'v) list \<Rightarrow> (string \<times> 'v) list" where
  "obj_delete k kvs = filter (\<lambda>(k', _). k' \<noteq> k) kvs"

subsection \<open>Strings\<close>

text \<open>
  \<^verbatim>\<open>s.split(c)\<close> for a one-character separator: the pieces between the separators,
  at least one. \<^verbatim>\<open>s.trim()\<close> removes white space at both ends; of the characters
  JavaScript counts as white space, those among the 8-bit characters are tab, line feed,
  vertical tab, form feed, carriage return, space and the no-break space.
\<close>

fun split_on :: "char \<Rightarrow> string \<Rightarrow> string list" where
  "split_on c [] = [[]]"
| "split_on c (x # xs) =
     (if x = c then [] # split_on c xs
      else (case split_on c xs of
              [] \<Rightarrow> [[x]]
            | p # ps \<Rightarrow> (x # p) # ps))"

definition is_space :: "char \<Rightarrow> bool" where
  "is_space c \<longleftrightarrow>
     c \<in> set [CHR 0x09, CHR 0x0A, CHR 0x0B, CHR 0x0C, CHR 0x0D, CHR '' '', CHR 0xA0]"

definition trim :: "string \<Rightarrow> string" where
  "trim s = rev (dropWhile is_space (rev (dropWhile is_space s)))"

text \<open>
  \<^verbatim>\<open>path.basename(p)\<close> on a POSIX path: the last segment, trailing slashes ignored.
\<close>

definition basename :: "string \<Rightarrow> string" where
  "basename p = rev (takeWhile (\<lambda>c. c \<noteq> CHR ''/'') (dropWhile (\<lambda>c. c = CHR ''/'') (rev p)))"

subsection \<open>Requests, responses and the client's state\<close>

datatype http_method = GET | POST | OPTIONS

text \<open>
  A field of the multipart form: a value appended as it is, or the read stream of the
  file at a path with the file name and content type given to \<^verbatim>\<open>append\<close>.
\<close>

datatype form_value = Field jsval | FileStream string string string

datatype body = NoBody | Json jsval | Multipart "(string \<times> form_value) list"

text \<open>
  \<open>cookie\<close> is the \<^verbatim>\<open>Cookie\<close> header the session's defaults add to the request (none
  for a request that does not go through the session); \<open>headers\<close> are the headers the
  call itself gives.
\<close>

record request =
  meth :: http_method
  url :: string
  params :: "(string \<times> jsval) list"
  headers :: "(string \<times> jsval) list"
  auth :: "(string \<times> string) option"
  body :: body
  cookie :: "string option"

text \<open>
  What a method returns is \<^verbatim>\<open>{status, data}\<close>; a response of the transport has these
  two and the \<^verbatim>\<open>set-cookie\<close> header (absent, or a list of strings).
\<close>

record envelope =
  status :: int
  data :: jsval

record response = envelope +
  set_cookie :: "string list option"

text \<open>
  An awaited call of the transport resolves to a response, whatever its status (the
  session is created with \<^verbatim>\<open>validateStatus: () => true\<close>), or rejects with an error
  whose message is kept.
\<close>

datatype outcome = Responds response | Throws string

record env =
  net :: "request list \<Rightarrow> request \<Rightarrow> outcome"
  engine_msg :: "type_error \<Rightarrow> string"
  xml_parse :: "jsval \<Rightarrow> string + jsval"
  fs_write :: "string \<Rightarrow> jsval \<Rightarrow> string option"

text \<open>
  \<open>net\<close> answers a request given the requests sent before it; \<open>xml_parse\<close> is
  \<^verbatim>\<open>new XMLParser().parse\<close> (the parsed document, or the message of the error it
  throws); \<open>fs_write\<close> is \<^verbatim>\<open>fs.writeFileSync\<close> (the message of the error it throws,
  if it throws).
\<close>

record state =
  userid :: jsval
  cookies :: "(string \<times> string) list"
  default_cookie :: "string option"
  sent :: "request list"
  written :: "(string \<times> jsval) list"

datatype exn = OtterAIException string

type_synonym result = "exn + envelope"

definition API_BASE_URL :: string where
  "API_BASE_URL = ''https://otter.ai/forward/api/v1/''"

definition S3_BASE_URL :: string where
  "S3_BASE_URL = ''https://s3.us-west-2.amazonaws.com/''"

text \<open>The constructor: no user id, no cookies, nothing sent.\<close>

definition new_client :: state where
  "new_client = \<lparr>userid = JNull, cookies = [], default_cookie = None, sent = [], written = []\<rparr>"

definition send :: "env \<Rightarrow> request \<Rightarrow> state \<Rightarrow> outcome \<times> state" where
  "send e rq s = (net e (sent s) rq, s\<lparr>sent := sent s @ [rq]\<rparr>)"

text \<open>A request of \<^verbatim>\<open>this.session\<close>: the default \<^verbatim>\<open>Cookie\<close> header goes with it.\<close>

definition session_request ::
  "state \<Rightarrow> http_method \<Rightarrow> string \<Rightarrow> (string \<times> jsval) list \<Rightarrow> (string \<times> jsval) list \<Rightarrow> body \<Rightarrow> request" where
  "session_request s m u ps hs b =
     \<lparr>meth = m, url = u, params = ps, headers = hs, auth = None, body = b,
      cookie = default_cookie s\<rparr>"

definition isUseridInvalid :: "state \<Rightarrow> bool" where
  "isUseridInvalid s \<longleftrightarrow> \<not> truthy (userid s)"

definition handleResponse :: "response \<Rightarrow> jsval \<Rightarrow> envelope" where
  "handleResponse r d =
     (if truthy d then \<lparr>status = status r, data = d\<rparr>
      else \<lparr>status = status r, data = data r\<rparr>)"

text \<open>
  \<^verbatim>\<open>_extractCookies\<close>: of each \<^verbatim>\<open>set-cookie\<close> entry the part before the first
  \<^verbatim>\<open>;\<close>, split at \<^verbatim>\<open>=\<close>; the first two pieces are name and value, kept when both
  are non-empty. Assigning to the name \<^verbatim>\<open>__proto__\<close> of a plain object creates no
  property.
\<close>

definition cookie_pair :: "string \<Rightarrow> (string \<times> string) option" where
  "cookie_pair c =
     (case split_on CHR '';'' c of
        [] \<Rightarrow> None
      | nameValue # _ \<Rightarrow>
          (case split_on CHR ''='' nameValue of
             name # value # _ \<Rightarrow>
               if name \<noteq> [] \<and> value \<noteq> [] then Some (trim name, trim value) else None
           | _ \<Rightarrow> None))"

definition cookie_put :: "(string \<times> string) list \<Rightarrow> string \<Rightarrow> (string \<times> string) list" where
  "cookie_put cs c =
     (case cookie_pair c of
        None \<Rightarrow> cs
      | Some (n, v) \<Rightarrow> if n = ''__proto__'' then cs else obj_put n v cs)"

definition extractCookies :: "response \<Rightarrow> (string \<times> string) list" where
  "extractCookies r =
     (case set_cookie r of
        None \<Rightarrow> []
      | Some setCookieHeader \<Rightarrow> foldl cookie_put [] setCookieHeader)"

definition cookieString :: "(string \<times> string) list \<Rightarrow> string" where
  "cookieString cs = join ''; '' (map (\<lambda>(name, value). name @ ''='' @ value) cs)"

definition setCookieHeader :: "state \<Rightarrow> state" where
  "setCookieHeader s =
     (if cookies s \<noteq> [] then s\<lparr>default_cookie := Some (cookieString (cookies s))\<rparr> else s)"

text \<open>\<^verbatim>\<open>this.cookies.csrftoken\<close>.\<close>

definition csrftoken :: "state \<Rightarrow> jsval" where
  "csrftoken s = (case map_of (cookies s) ''csrftoken'' of None \<Rightarrow> JUndefined | Some v \<Rightarrow> JStr v)"

subsection \<open>Login and the single-request operations\<close>

text \<open>
  Arguments the methods pass on unchanged (\<open>folder\<close>, \<open>pageSize\<close>) are JavaScript
  values; user name, password, speech id, source, file name and format are strings, as
  the README documents them; \<open>name\<close> of \<^verbatim>\<open>downloadSpeech\<close> is \<^verbatim>\<open>null\<close> or a string.
\<close>

definition login_request :: "state \<Rightarrow> string \<Rightarrow> string \<Rightarrow> request" where
  "login_request s username password =
     (session_request s GET (API_BASE_URL @ ''login'') [(''username'', JStr username)] [] NoBody)
       \<lparr>auth := Some (username, password)\<rparr>"

definition login :: "env \<Rightarrow> string \<Rightarrow> string \<Rightarrow> state \<Rightarrow> result \<times> state" where
  "login e username password s =
     (case send e (login_request s username password) s of
        (Throws m, s1) \<Rightarrow> (Inl (OtterAIException (''Login failed: '' @ m)), s1)
      | (Responds r, s1) \<Rightarrow>
          if status r \<noteq> 200 then (Inr (handleResponse r JNull), s1)
          else (case js_get (data r) ''userid'' of
                  Inl te \<Rightarrow> (Inl (OtterAIException (''Login failed: '' @ engine_msg e te)), s1)
                | Inr u \<Rightarrow>
                    (Inr (handleResponse r JNull),
                     setCookieHeader (s1\<lparr>userid := u, cookies := extractCookies r\<rparr>))))"

definition getUser :: "env \<Rightarrow> state \<Rightarrow> result \<times> state" where
  "getUser e s =
     (case send e (session_request s GET (API_BASE_URL @ ''user'') [] [] NoBody) s of
        (Throws m, s1) \<Rightarrow> (Inl (OtterAIException (''Get user failed: '' @ m)), s1)
      | (Responds r, s1) \<Rightarrow> (Inr (handleResponse r JNull), s1))"

definition getSpeakers :: "env \<Rightarrow> state \<Rightarrow> result \<times> state" where
  "getSpeakers e s =
     (if isUseridInvalid s then (Inl (OtterAIException ''userid is invalid''), s)
      else (case send e (session_request s GET (API_BASE_URL @ ''speakers'')
                           [(''userid'', userid s)] [] NoBody) s of
              (Throws m, s1) \<Rightarrow> (Inl (OtterAIException (''Get speakers failed: '' @ m)), s1)
            | (Responds r, s1) \<Rightarrow> (Inr (handleResponse r JNull), s1)))"

definition getSpeeches :: "env \<Rightarrow> jsval \<Rightarrow> jsval \<Rightarrow> string \<Rightarrow> state \<Rightarrow> result \<times> state" where
  "getSpeeches e folder pageSize source s =
     (if isUseridInvalid s then (Inl (OtterAIException ''userid is invalid''), s)
      else (case send e (session_request s GET (API_BASE_URL @ ''speeches'')
                           [(''userid'', userid s), (''folder'', folder),
                            (''page_size'', pageSize), (''source'', JStr source)] [] NoBody) s of
              (Throws m, s1) \<Rightarrow> (Inl (OtterAIException (''Get speeches failed: '' @ m)), s1)
            | (Responds r, s1) \<Rightarrow> (Inr (handleResponse r JNull), s1)))"

definition getSpeech :: "env \<Rightarrow> string \<Rightarrow> state \<Rightarrow> result \<times> state" where
  "getSpeech e speechId s =
     (if isUseridInvalid s then (Inl (OtterAIException ''userid is invalid''), s)
      else (case send e (session_request s GET (API_BASE_URL @ ''speech'')
                           [(''userid'', userid s), (''otid'', JStr speechId)] [] NoBody) s of
              (Throws m, s1) \<Rightarrow> (Inl (OtterAIException (''Get speech failed: '' @ m)), s1)
            | (Responds r, s1) \<Rightarrow> (Inr (handleResponse r JNull), s1)))"

definition querySpeech :: "env \<Rightarrow> string \<Rightarrow> string \<Rightarrow> jsval \<Rightarrow> state \<Rightarrow> result \<times> state" where
  "querySpeech e query speechId sz s =
     (case send e (session_request s GET (API_BASE_URL @ ''advanced_search'')
                     [(''query'', JStr query), (''size'', sz), (''otid'', JStr speechId)]
                     [] NoBody) s of
        (Throws m, s1) \<Rightarrow> (Inl (OtterAIException (''Query speech failed: '' @ m)), s1)
      | (Responds r, s1) \<Rightarrow> (Inr (handleResponse r JNull), s1))"

definition moveToTrashBin :: "env \<Rightarrow> string \<Rightarrow> state \<Rightarrow> result \<times> state" where
  "moveToTrashBin e speechId s =
     (if isUseridInvalid s then (Inl (OtterAIException ''userid is invalid''), s)
      else (case send e (session_request s POST (API_BASE_URL @ ''move_to_trash_bin'')
                           [(''userid'', userid s)] [(''x-csrftoken'', csrftoken s)]
                           (Json (JObj [(''otid'', JStr speechId)]))) s of
              (Throws m, s1) \<Rightarrow> (Inl (OtterAIException (''Move to trash bin failed: '' @ m)), s1)
            | (Responds r, s1) \<Rightarrow> (Inr (handleResponse r JNull), s1)))"

definition createSpeaker :: "env \<Rightarrow> string \<Rightarrow> state \<Rightarrow> result \<times> state" where
  "createSpeaker e speakerName s =
     (if isUseridInvalid s then (Inl (OtterAIException ''userid is invalid''), s)
      else (case send e (session_request s POST (API_BASE_URL @ ''create_speaker'')
                           [(''userid'', userid s)] [(''x-csrftoken'', csrftoken s)]
                           (Json (JObj [(''speaker_name'', JStr speakerName)]))) s of
              (Throws m, s1) \<Rightarrow> (Inl (OtterAIException (''Create speaker failed: '' @ m)), s1)
            | (Responds r, s1) \<Rightarrow> (Inr (handleResponse r JNull), s1)))"

definition getNotificationSettings :: "env \<Rightarrow> state \<Rightarrow> result \<times> state" where
  "getNotificationSettings e s =
     (case send e (session_request s GET (API_BASE_URL @ ''get_notification_settings'')
                     [] [] NoBody) s of
        (Throws m, s1) \<Rightarrow>
          (Inl (OtterAIException (''Get notification settings failed: '' @ m)), s1)
      | (Responds r, s1) \<Rightarrow> (Inr (handleResponse r JNull), s1))"

definition listGroups :: "env \<Rightarrow> state \<Rightarrow> result \<times> state" where
  "listGroups e s =
     (if isUseridInvalid s then (Inl (OtterAIException ''userid is invalid''), s)
      else (case send e (session_request s GET (API_BASE_URL @ ''list_groups'')
                           [(''userid'', userid s)] [] NoBody) s of
              (Throws m, s1) \<Rightarrow> (Inl (OtterAIException (''List groups failed: '' @ m)), s1)
            | (Responds r, s1) \<Rightarrow> (Inr (handleResponse r JNull), s1)))"

definition getFolders :: "env \<Rightarrow> state \<Rightarrow> result \<times> state" where
  "getFolders e s =
     (if isUseridInvalid s then (Inl (OtterAIException ''userid is invalid''), s)
      else (case send e (session_request s GET (API_BASE_URL @ ''folders'')
                           [(''userid'', userid s)] [] NoBody) s of
              (Throws m, s1) \<Rightarrow> (Inl (OtterAIException (''Get folders failed: '' @ m)), s1)
            | (Responds r, s1) \<Rightarrow> (Inr (handleResponse r JNull), s1)))"

subsection \<open>Aggregation\<close>

definition getAllSpeeches :: "env \<Rightarrow> jsval \<Rightarrow> string \<Rightarrow> int \<Rightarrow> state \<Rightarrow> result \<times> state" where
  "getAllSpeeches e folder source maxSpeeches s =
     (if isUseridInvalid s then (Inl (OtterAIException ''userid is invalid''), s)
      else
        let largePageSize = min maxSpeeches 200 in
        (case getSpeeches e folder (JNum largePageSize) source s of
           (Inl (OtterAIException m), s1) \<Rightarrow>
             (Inl (OtterAIException (''Get all speeches failed: '' @ m)), s1)
         | (Inr response, s1) \<Rightarrow>
             if status response \<noteq> 200 \<or> \<not> truthy (js_get_opt (data response) ''speeches'')
             then (Inl (OtterAIException (''Get all speeches failed: '' @
                      ''Failed to get speeches: '' @ show_int (status response))), s1)
             else
               (case js_get (data response) ''speeches'' of
                  Inl te \<Rightarrow>
                    (Inl (OtterAIException (''Get all speeches failed: '' @ engine_msg e te)), s1)
                | Inr speeches \<Rightarrow>
                    (case js_get speeches ''length'' of
                       Inl te \<Rightarrow>
                         (Inl (OtterAIException (''Get all speeches failed: '' @ engine_msg e te)),
                          s1)
                     | Inr len \<Rightarrow>
                         (Inr \<lparr>status = 200,
                               data = JObj
                                 [(''status'', JStr ''OK''),
                                  (''speeches'', speeches),
                                  (''total_count'', len),
                                  (''note'', JStr
                                     (if len = JNum largePageSize
                                      then ''Max page size reached - there may be more speeches''
                                      else ''All available speeches retrieved''))]\<rparr>,
                          s1)))))"

text \<open>
  The object \<^verbatim>\<open>allSpeeches\<close> of \<^verbatim>\<open>getAllSpeechesFromAllSources\<close> is the list of its
  properties \<^verbatim>\<open>owned\<close>, \<^verbatim>\<open>shared\<close> and \<^verbatim>\<open>total\<close>; \<open>own_prop\<close> reads one of them.
\<close>

definition own_prop :: "(string \<times> jsval) list \<Rightarrow> string \<Rightarrow> jsval" where
  "own_prop kvs k = (case map_of kvs k of None \<Rightarrow> JUndefined | Some v \<Rightarrow> v)"

text \<open>
  One round of the loop over the sources: the inner \<^verbatim>\<open>try\<close> with its \<^verbatim>\<open>catch\<close>,
  which stores the empty array for the source whatever was thrown.
\<close>

definition fetch_source ::
  "env \<Rightarrow> jsval \<Rightarrow> int \<Rightarrow> string \<Rightarrow> (string \<times> jsval) list \<Rightarrow> state
     \<Rightarrow> (string \<times> jsval) list \<times> state" where
  "fetch_source e folder maxPerSource source allSpeeches s =
     (case getAllSpeeches e folder source maxPerSource s of
        (Inl _, s1) \<Rightarrow> (obj_put source (JArr []) allSpeeches, s1)
      | (Inr result, s1) \<Rightarrow>
          if truthy (js_get_opt (data result) ''speeches'') then
            (case js_get (data result) ''speeches'' of
               Inl _ \<Rightarrow> (obj_put source (JArr []) allSpeeches, s1)
             | Inr speeches \<Rightarrow>
                 let all1 = obj_put source speeches allSpeeches in
                 (case js_get speeches ''length'' of
                    Inl _ \<Rightarrow> (obj_put source (JArr []) all1, s1)
                  | Inr len \<Rightarrow> (obj_put ''total'' (js_add (own_prop all1 ''total'') len) all1, s1)))
          else (allSpeeches, s1))"

fun fetch_sources ::
  "env \<Rightarrow> jsval \<Rightarrow> int \<Rightarrow> string list \<Rightarrow> (string \<times> jsval) list \<Rightarrow> state
     \<Rightarrow> (string \<times> jsval) list \<times> state" where
  "fetch_sources e folder maxPerSource [] allSpeeches s = (allSpeeches, s)"
| "fetch_sources e folder maxPerSource (source # sources) allSpeeches s =
     (case fetch_source e folder maxPerSource source allSpeeches s of
        (all1, s1) \<Rightarrow> fetch_sources e folder maxPerSource sources all1 s1)"

definition getAllSpeechesFromAllSources :: "env \<Rightarrow> jsval \<Rightarrow> int \<Rightarrow> state \<Rightarrow> result \<times> state" where
  "getAllSpeechesFromAllSources e folder maxPerSource s =
     (if isUseridInvalid s then (Inl (OtterAIException ''userid is invalid''), s)
      else
        (case fetch_sources e folder maxPerSource [''owned'', ''shared'']
                [(''owned'', JArr []), (''shared'', JArr []), (''total'', JNum 0)] s of
           (allSpeeches, s1) \<Rightarrow>
             (case js_spread ''allSpeeches.owned'' (own_prop allSpeeches ''owned'') of
                Inl te \<Rightarrow>
                  (Inl (OtterAIException (''Get all speeches from all sources failed: '' @
                          engine_msg e te)), s1)
              | Inr owned \<Rightarrow>
                  (case js_spread ''allSpeeches.shared'' (own_prop allSpeeches ''shared'') of
                     Inl te \<Rightarrow>
                       (Inl (OtterAIException (''Get all speeches from all sources failed: '' @
                               engine_msg e te)), s1)
                   | Inr shared \<Rightarrow>
                       (Inr \<lparr>status = 200,
                             data = JObj
                               [(''status'', JStr ''OK''),
                                (''speeches_by_source'', JObj allSpeeches),
                                (''all_speeches'', JArr (owned @ shared)),
                                (''summary'', JObj
                                   [(''owned_count'',
                                       js_get_opt (own_prop allSpeeches ''owned'') ''length''),
                                    (''shared_count'',
                                       js_get_opt (own_prop allSpeeches ''shared'') ''length''),
                                    (''total_count'', own_prop allSpeeches ''total'')])]\<rparr>,
                        s1)))))"

text \<open>
  In the summary \<^verbatim>\<open>allSpeeches.owned.length\<close> is read after both spreads have
  succeeded, so \<^verbatim>\<open>allSpeeches.owned\<close> is an array or a string there and the read
  cannot throw.
\<close>

subsection \<open>Upload and download\<close>

text \<open>
  The own properties of \<^verbatim>\<open>paramsData\<close> as \<^verbatim>\<open>Object.keys\<close> lists them: those of an
  object, the indices of an array; a primitive has none that can be assigned (the class
  body is strict code, so the assignment throws).
\<close>

fun own_props :: "jsval \<Rightarrow> (string \<times> jsval) list option" where
  "own_props (JObj kvs) = Some kvs"
| "own_props (JArr xs) = Some (zip (map (\<lambda>i. show_int (int i)) [0..<length xs]) xs)"
| "own_props _ = None"

text \<open>
  Step 4: the XML of the store's answer, its \<^verbatim>\<open>PostResponse\<close>, and the finish call.
  \<^verbatim>\<open>Location\<close> is read and not used.
\<close>

definition finish_request :: "state \<Rightarrow> jsval \<Rightarrow> request" where
  "finish_request s postResponse =
     session_request s GET (API_BASE_URL @ ''finish_speech_upload'')
       [(''bucket'', js_get_opt postResponse ''Bucket''),
        (''key'', js_get_opt postResponse ''Key''),
        (''language'', JStr ''en''),
        (''country'', JStr ''us''),
        (''userid'', userid s)] [] NoBody"

definition finish_upload :: "env \<Rightarrow> response \<Rightarrow> state \<Rightarrow> result \<times> state" where
  "finish_upload e uploadResponse s =
     (case xml_parse e (data uploadResponse) of
        Inl m \<Rightarrow> (Inl (OtterAIException (''Upload speech failed: '' @ m)), s)
      | Inr xmlData \<Rightarrow>
          (case js_get xmlData ''PostResponse'' of
             Inl te \<Rightarrow> (Inl (OtterAIException (''Upload speech failed: '' @ engine_msg e te)), s)
           | Inr postResponse \<Rightarrow>
               (case js_get postResponse ''Location'' of
                  Inl te \<Rightarrow>
                    (Inl (OtterAIException (''Upload speech failed: '' @ engine_msg e te)), s)
                | Inr location \<Rightarrow>
                    (case send e (finish_request s postResponse) s of
                       (Throws m, s1) \<Rightarrow>
                         (Inl (OtterAIException (''Upload speech failed: '' @ m)), s1)
                     | (Responds finishResponse, s1) \<Rightarrow>
                         (Inr (handleResponse finishResponse JNull), s1)))))"

text \<open>
  Step 3: the form is every property of \<^verbatim>\<open>paramsData\<close> after the status has been made
  a string and \<^verbatim>\<open>form_action\<close> deleted, then the file. The POST is a call of
  \<^verbatim>\<open>axios\<close> itself, not of the session: no \<^verbatim>\<open>Cookie\<close> header. Its headers are the
  form's content type with a fresh boundary, which the model leaves out;
  \<^verbatim>\<open>formData.append\<close> records the field it is given. On a \<^verbatim>\<open>paramsData\<close> that is
  \<^verbatim>\<open>null\<close> or \<^verbatim>\<open>undefined\<close> the assignment of the status throws a type error, taken
  here as the one of reading the property on its right-hand side.
\<close>

definition upload_form :: "(string \<times> jsval) list \<Rightarrow> string \<Rightarrow> string \<Rightarrow> (string \<times> form_value) list" where
  "upload_form paramsProps fileName contentType =
     map (\<lambda>(key, v). (key, Field v)) paramsProps @
     [(''file'', FileStream fileName (basename fileName) contentType)]"

definition post_request :: "(string \<times> form_value) list \<Rightarrow> request" where
  "post_request formData =
     \<lparr>meth = POST, url = S3_BASE_URL @ ''speech-upload-prod'', params = [], headers = [],
      auth = None, body = Multipart formData, cookie = None\<rparr>"

definition post_file :: "env \<Rightarrow> jsval \<Rightarrow> string \<Rightarrow> string \<Rightarrow> state \<Rightarrow> result \<times> state" where
  "post_file e paramsData fileName contentType s =
     (case js_get paramsData ''success_action_status'' of
        Inl te \<Rightarrow> (Inl (OtterAIException (''Upload speech failed: '' @ engine_msg e te)), s)
      | Inr st \<Rightarrow>
          (case own_props paramsData of
             None \<Rightarrow>
               (Inl (OtterAIException (''Upload speech failed: '' @
                       engine_msg e (CreateOnPrimitive ''success_action_status'' paramsData))), s)
           | Some kvs \<Rightarrow>
               let paramsProps =
                     obj_delete ''form_action''
                       (obj_put ''success_action_status'' (JStr (js_String st)) kvs) in
               (case send e (post_request (upload_form paramsProps fileName contentType)) s of
                  (Throws m, s1) \<Rightarrow> (Inl (OtterAIException (''Upload speech failed: '' @ m)), s1)
                | (Responds uploadResponse, s1) \<Rightarrow>
                    if status uploadResponse \<noteq> 201
                    then (Inr (handleResponse uploadResponse JNull), s1)
                    else finish_upload e uploadResponse s1)))"

text \<open>Steps 1 and 2: the upload parameters, then the preflight to the object store.\<close>

definition upload_params_request :: "state \<Rightarrow> request" where
  "upload_params_request s =
     session_request s GET (API_BASE_URL @ ''speech_upload_params'') [(''userid'', userid s)] []
       NoBody"

definition options_request :: "state \<Rightarrow> request" where
  "options_request s =
     session_request s OPTIONS (S3_BASE_URL @ ''speech-upload-prod'') []
       [(''Accept'', JStr ''*/*''),
        (''Connection'', JStr ''keep-alive''),
        (''Origin'', JStr ''https://otter.ai''),
        (''Referer'', JStr ''https://otter.ai/''),
        (''Access-Control-Request-Method'', JStr ''POST'')]
       NoBody"

definition uploadSpeech :: "env \<Rightarrow> string \<Rightarrow> string \<Rightarrow> state \<Rightarrow> result \<times> state" where
  "uploadSpeech e fileName contentType s =
     (if isUseridInvalid s then (Inl (OtterAIException ''userid is invalid''), s)
      else
        (case send e (upload_params_request s) s of
           (Throws m, s1) \<Rightarrow> (Inl (OtterAIException (''Upload speech failed: '' @ m)), s1)
         | (Responds response, s1) \<Rightarrow>
             if status response \<noteq> 200 then (Inr (handleResponse response JNull), s1)
             else
               (case js_get (data response) ''data'' of
                  Inl te \<Rightarrow>
                    (Inl (OtterAIException (''Upload speech failed: '' @ engine_msg e te)), s1)
                | Inr paramsData \<Rightarrow>
                    (case send e (options_request s1) s1 of
                       (Throws m, s2) \<Rightarrow>
                         (Inl (OtterAIException (''Upload speech failed: '' @ m)), s2)
                     | (Responds optionsResponse, s2) \<Rightarrow>
                         if status optionsResponse \<noteq> 200
                         then (Inr (handleResponse optionsResponse JNull), s2)
                         else post_file e paramsData fileName contentType s2))))"

text \<open>
  The request of \<^verbatim>\<open>downloadSpeech\<close>. Its \<^verbatim>\<open>responseType: 'arraybuffer'\<close> only makes
  the data of the response the received bytes.
\<close>

definition download_request :: "state \<Rightarrow> string \<Rightarrow> string \<Rightarrow> request" where
  "download_request s speechId fileFormat =
     session_request s POST (API_BASE_URL @ ''bulk_export'')
       [(''userid'', userid s)]
       [(''x-csrftoken'', csrftoken s), (''referer'', JStr ''https://otter.ai/'')]
       (Json (JObj [(''formats'', JStr fileFormat),
                    (''speech_otid_list'', JArr [JStr speechId])]))"

definition downloadSpeech ::
  "env \<Rightarrow> string \<Rightarrow> string option \<Rightarrow> string \<Rightarrow> state \<Rightarrow> result \<times> state" where
  "downloadSpeech e speechId name fileFormat s =
     (if isUseridInvalid s then (Inl (OtterAIException ''userid is invalid''), s)
      else
        (case send e (download_request s speechId fileFormat) s of
           (Throws m, s1) \<Rightarrow> (Inl (OtterAIException (''Download speech failed: '' @ m)), s1)
         | (Responds response, s1) \<Rightarrow>
             let filename =
                   (case name of
                      None \<Rightarrow> speechId
                    | Some n \<Rightarrow> if n \<noteq> [] then n else speechId) @ ''.'' @
                   (if CHR '','' \<in> set fileFormat then ''zip'' else fileFormat) in
             if status response = 200 then
               (case fs_write e filename (data response) of
                  Some m \<Rightarrow> (Inl (OtterAIException (''Download speech failed: '' @ m)), s1)
                | None \<Rightarrow>
                    (Inr (handleResponse response (JObj [(''filename'', JStr filename)])),
                     s1\<lparr>written := written s1 @ [(filename, data response)]\<rparr>))
             else
               (Inl (OtterAIException (''Download speech failed: '' @
                       ''Got response status '' @ show_int (status response) @
                       '' when attempting to download '' @ speechId)), s1)))"

subsection \<open>Sequences of calls\<close>

text \<open>
  A caller uses one client for a sequence of method calls. \<open>perform\<close> dispatches one
  call to its method and \<open>run\<close> threads the state through a sequence, results dropped.
  \<^verbatim>\<open>speechStart\<close> and \<^verbatim>\<open>stopSpeech\<close> only throw and are left out.
\<close>

datatype call =
    Login string string
  | GetUser
  | GetSpeakers
  | GetSpeeches jsval jsval string
  | GetAllSpeeches jsval string int
  | GetAllSpeechesFromAllSources jsval int
  | GetSpeech string
  | QuerySpeech string string jsval
  | UploadSpeech string string
  | DownloadSpeech string "string option" string
  | MoveToTrashBin string
  | CreateSpeaker string
  | GetNotificationSettings
  | ListGroups
  | GetFolders

fun perform :: "env \<Rightarrow> call \<Rightarrow> state \<Rightarrow> result \<times> state" where
  "perform e (Login username password) s = login e username password s"
| "perform e GetUser s = getUser e s"
| "perform e GetSpeakers s = getSpeakers e s"
| "perform e (GetSpeeches folder pageSize source) s = getSpeeches e folder pageSize source s"
| "perform e (GetAllSpeeches folder source maxSpeeches) s =
     getAllSpeeches e folder source maxSpeeches s"
| "perform e (GetAllSpeechesFromAllSources folder maxPerSource) s =
     getAllSpeechesFromAllSources e folder maxPerSource s"
| "perform e (GetSpeech speechId) s = getSpeech e speechId s"
| "perform e (QuerySpeech query speechId sz) s = querySpeech e query speechId sz s"
| "perform e (UploadSpeech fileName contentType) s = uploadSpeech e fileName contentType s"
| "perform e (DownloadSpeech speechId name fileFormat) s =
     downloadSpeech e speechId name fileFormat s"
| "perform e (MoveToTrashBin speechId) s = moveToTrashBin e speechId s"
| "perform e (CreateSpeaker speakerName) s = createSpeaker e speakerName s"
| "perform e GetNotificationSettings s = getNotificationSettings e s"
| "perform e ListGroups s = listGroups e s"
| "perform e GetFolders s = getFolders e s"

fun run :: "env \<Rightarrow> call list \<Rightarrow> state \<Rightarrow> state" where
  "run e [] s = s"
| "run e (c # cs) s = run e cs (snd (perform e c s))"

fun is_login :: "call \<Rightarrow> bool" where
  "is_login (Login _ _) = True"
| "is_login _ = False"

text \<open>The requests a computation added to the log of a state \<open>s\<close>.\<close>

definition sent_since :: "state \<Rightarrow> state \<Rightarrow> request list" where
  "sent_since s s' = drop (length (sent s)) (sent s')"

text \<open>
  A request carries cookie material of a header value \<open>ck\<close> and a token \<open>tok\<close> only:
  its \<^verbatim>\<open>Cookie\<close> header is absent or \<open>ck\<close>, and an \<^verbatim>\<open>x-csrftoken\<close> header it gives
  is \<open>tok\<close>. A computation from \<open>s\<close> to \<open>s'\<close> keeps the session when it leaves user id,
  cookies and default header alone and every request it adds to the log carries the
  cookie material of \<open>s\<close> only.
\<close>

definition carries :: "string option \<Rightarrow> jsval \<Rightarrow> request \<Rightarrow> bool" where
  "carries ck tok rq \<longleftrightarrow>
     (cookie rq = None \<or> cookie rq = ck) \<and>
     list_all (\<lambda>(h, v). h = ''x-csrftoken'' \<longrightarrow> v = tok) (headers rq)"

definition keeps_session :: "state \<Rightarrow> state \<Rightarrow> bool" where
  "keeps_session s s' \<longleftrightarrow>
     userid s' = userid s \<and> cookies s' = cookies s \<and> default_cookie s' = default_cookie s \<and>
     take (length (sent s)) (sent s') = sent s \<and>
     list_all (carries (default_cookie s) (csrftoken s)) (sent_since s s')"

text \<open>
  The responses a computation received. \<open>send\<close> asks the remote side with the log as it
  is and then appends the request, so the answer to a request of the log is the one
  given on the requests before it. \<open>replies e log rqs\<close> are the responses to the
  requests \<open>rqs\<close> sent one after the other from the log \<open>log\<close> (a request that met a
  transport error has none), and \<open>received e s s'\<close> those to the requests added between
  \<open>s\<close> and \<open>s'\<close>.
\<close>

fun replies :: "env \<Rightarrow> request list \<Rightarrow> request list \<Rightarrow> response list" where
  "replies e log [] = []"
| "replies e log (rq # rqs) =
     (case net e log rq of Responds r \<Rightarrow> [r] | Throws _ \<Rightarrow> []) @ replies e (log @ [rq]) rqs"

definition received :: "env \<Rightarrow> state \<Rightarrow> state \<Rightarrow> response list" where
  "received e s s' = replies e (sent s) (sent_since s s')"

text \<open>
  A status outside 200 to 299. A call that ended with \<open>res\<close> returns error responses as
  envelopes when each response it received with such a status is what it returned.
\<close>

definition non_2xx :: "int \<Rightarrow> bool" where
  "non_2xx st \<longleftrightarrow> st < 200 \<or> 300 \<le> st"

definition returns_error_envelopes :: "env \<Rightarrow> state \<Rightarrow> result \<times> state \<Rightarrow> bool" where
  "returns_error_envelopes e s res \<longleftrightarrow>
     list_all (\<lambda>r. non_2xx (status r) \<longrightarrow> fst res = Inr \<lparr>status = status r, data = data r\<rparr>)
       (received e s (snd res))"


text \<open>
  The file name of a download as the specification words it, with \<^verbatim>\<open>??\<close>: the name
  unless it is \<^verbatim>\<open>null\<close>.
\<close>

definition spec_filename :: "string \<Rightarrow> string option \<Rightarrow> string \<Rightarrow> string" where
  "spec_filename speechId name fileFormat =
     (case name of None \<Rightarrow> speechId | Some n \<Rightarrow> n) @ ''.'' @
     (if CHR '','' \<in> set fileFormat then ''zip'' else fileFormat)"

subsection \<open>Scenarios\<close>

text \<open>
  Remote sides for concrete runs: one that answers every request with the same response,
  and one that answers the \<open>n\<close>-th request of a run with the \<open>n\<close>-th entry of a script
  and resets the connection afterwards. The engine words every type error alike, the
  XML parser returns a fixed document, and files are written without error.
\<close>

definition always :: "response \<Rightarrow> env" where
  "always r =
     \<lparr>net = (\<lambda>_ _. Responds r), engine_msg = (\<lambda>_. ''TypeError''),
      xml_parse = (\<lambda>_. Inl ''not XML''), fs_write = (\<lambda>_ _. None)\<rparr>"

definition scripted :: "outcome list \<Rightarrow> jsval \<Rightarrow> env" where
  "scripted answers xml =
     \<lparr>net = (\<lambda>log _. if length log < length answers then answers ! length log
                      else Throws ''ECONNRESET''),
      engine_msg = (\<lambda>_. ''TypeError''),
      xml_parse = (\<lambda>_. Inr xml), fs_write = (\<lambda>_ _. None)\<rparr>"

definition answer :: "int \<Rightarrow> jsval \<Rightarrow> response" where
  "answer st d = \<lparr>status = st, data = d, set_cookie = None\<rparr>"

definition answer_with_cookies :: "int \<Rightarrow> jsval \<Rightarrow> string list \<Rightarrow> response" where
  "answer_with_cookies st d cs = \<lparr>status = st, data = d, set_cookie = Some cs\<rparr>"

text \<open>A client that has logged in as user \<^verbatim>\<open>u1\<close> and holds a session cookie.\<close>

definition logged_in :: state where
  "logged_in =
     \<lparr>userid = JStr ''u1'', cookies = [(''sessionid'', ''abc'')],
      default_cookie = Some ''sessionid=abc'', sent = [], written = []\<rparr>"

text \<open>
  Two uploads. In the first the object store refuses the preflight. In the second every
  step succeeds; the upload parameters carry the status as the number 201 and a
  \<^verbatim>\<open>form_action\<close>.
\<close>

definition preflight_refused :: env where
  "preflight_refused =
     scripted [Responds (answer 200 (JObj [(''data'', JObj [(''key'', JStr ''k''), (''success_action_status'', JNum 201)])])),
               Responds (answer 403 (JStr ''Forbidden''))] JNull"

definition upload_accepted :: env where
  "upload_accepted =
     scripted
       [Responds (answer 200 (JObj [(''data'', JObj
          [(''key'', JStr ''uploads/k1''),
           (''success_action_status'', JNum 201),
           (''form_action'', JStr ''https://s3.us-west-2.amazonaws.com/speech-upload-prod'')])])),
        Responds (answer 200 (JStr [])),
        Responds (answer 201 (JStr ''<PostResponse/>'')),
        Responds (answer 200 (JObj [(''status'', JStr ''OK'')]))]
       (JObj [(''PostResponse'', JObj
          [(''Location'', JStr ''https://s3.us-west-2.amazonaws.com/speech-upload-prod/uploads%2Fk1''),
           (''Bucket'', JStr ''speech-upload-prod''),
           (''Key'', JStr ''uploads/k1'')])])"

definition posted_form :: "(string \<times> form_value) list" where
  "posted_form =
     [(''key'', Field (JStr ''uploads/k1'')),
      (''success_action_status'', Field (JStr ''201'')),
      (''file'', FileStream ''media/talk.mp4'' ''talk.mp4'' ''audio/mp4'')]"

text \<open>
  Three remote sides for the aggregation, all with the same page of two owned speeches:
  one with a page of one shared speech, one whose second request times out, and one with
  an empty page of shared speeches.
\<close>

definition owned_page :: "jsval list" where
  "owned_page = [JObj [(''otid'', JStr ''a1'')], JObj [(''otid'', JStr ''a2'')]]"

definition shared_page :: "jsval list" where
  "shared_page = [JObj [(''otid'', JStr ''b1'')]]"

definition both_sources :: env where
  "both_sources =
     scripted [Responds (answer 200 (JObj [(''speeches'', JArr owned_page)])),
               Responds (answer 200 (JObj [(''speeches'', JArr shared_page)]))] JNull"



text \<open>
  Two logins on one client. On the first remote side the second login's response sets
  no cookie; on the second it sets a new session cookie and a new CSRF token. The states
  are those of the client after the first and after the second login on that side.
\<close>

definition relogin_without_cookies :: env where
  "relogin_without_cookies =
     scripted
       [Responds (answer_with_cookies 200 (JObj [(''userid'', JStr ''u1'')])
                    [''sessionid=abc; Path=/; HttpOnly'']),
        Responds (answer 200 (JObj [(''userid'', JStr ''u2'')])),
        Responds (answer 200 (JObj [(''speakers'', JArr [])]))] JNull"

definition second_login :: response where
  "second_login =
     answer_with_cookies 200 (JObj [(''userid'', JStr ''u2'')])
       [''sessionid=xyz; Path=/; HttpOnly'', ''csrftoken=t2; Path=/'']"

definition relogin_with_cookies :: env where
  "relogin_with_cookies =
     scripted
       [Responds (answer_with_cookies 200 (JObj [(''userid'', JStr ''u1'')])
                    [''sessionid=abc; Path=/; HttpOnly'', ''csrftoken=t1; Path=/'']),
        Responds second_login,
        Responds (answer 200 (JObj [(''speakers'', JArr [])])),
        Responds (answer 200 (JObj [(''status'', JStr ''OK'')]))] JNull"

definition after_first_login :: state where
  "after_first_login =
     \<lparr>userid = JStr ''u1'', cookies = [(''sessionid'', ''abc''), (''csrftoken'', ''t1'')],
      default_cookie = Some ''sessionid=abc; csrftoken=t1'',
      sent = [login_request new_client ''bob'' ''pw''], written = []\<rparr>"

definition after_second_login :: state where
  "after_second_login =
     \<lparr>userid = JStr ''u2'', cookies = [(''sessionid'', ''xyz''), (''csrftoken'', ''t2'')],
      default_cookie = Some ''sessionid=xyz; csrftoken=t2'',
      sent = [login_request new_client ''bob'' ''pw'', login_request after_first_login ''bob'' ''pw''],
      written = []\<rparr>"

text \<open>
  Error answers: a 404 and a 204 for remote sides that always answer the same, an upload
  whose POST to the object store is refused, and an upload whose finish call fails after
  the store accepted the file.
\<close>

definition not_found :: response where
  "not_found = answer 404 (JStr ''Not Found'')"

definition no_content :: response where
  "no_content = answer 204 (JStr [])"

definition post_refused :: env where
  "post_refused =
     scripted
       [Responds (answer 200 (JObj [(''data'', JObj
          [(''key'', JStr ''uploads/k1''), (''success_action_status'', JNum 201)])])),
        Responds (answer 200 (JStr [])),
        Responds (answer 403 (JStr ''AccessDenied''))] JNull"

definition finish_failed :: env where
  "finish_failed =
     scripted
       [Responds (answer 200 (JObj [(''data'', JObj
          [(''key'', JStr ''uploads/k1''), (''success_action_status'', JNum 201)])])),
        Responds (answer 200 (JStr [])),
        Responds (answer 201 (JStr ''<PostResponse/>'')),
        Responds (answer 500 (JStr ''Internal Server Error''))]
       (JObj [(''PostResponse'', JObj
          [(''Location'', JStr ''https://s3.us-west-2.amazonaws.com/speech-upload-prod/uploads%2Fk1''),
           (''Bucket'', JStr ''speech-upload-prod''),
           (''Key'', JStr ''uploads/k1'')])])"

section \<open>Properties\<close>

subsection \<open>The identity gate\<close>

text \<open>
  Every identity-gated method tests \<^verbatim>\<open>_isUseridInvalid\<close> before its \<^verbatim>\<open>try\<close>: with
  a user id that is not truthy it throws \<^verbatim>\<open>userid is invalid\<close> and the state,
  the log of requests included, is what it was.
\<close>

lemma gated_reject:
  assumes "\<not> truthy (userid s)"
  shows "getSpeakers e s = (Inl (OtterAIException ''userid is invalid''), s)"
    and "getSpeeches e folder pageSize source s = (Inl (OtterAIException ''userid is invalid''), s)"
    and "getAllSpeeches e folder source maxSpeeches s = (Inl (OtterAIException ''userid is invalid''), s)"
    and "getAllSpeechesFromAllSources e folder maxPerSource s = (Inl (OtterAIException ''userid is invalid''), s)"
    and "getSpeech e speechId s = (Inl (OtterAIException ''userid is invalid''), s)"
    and "uploadSpeech e fileName contentType s = (Inl (OtterAIException ''userid is invalid''), s)"
    and "downloadSpeech e speechId name fileFormat s = (Inl (OtterAIException ''userid is invalid''), s)"
    and "moveToTrashBin e speechId s = (Inl (OtterAIException ''userid is invalid''), s)"
    and "createSpeaker e speakerName s = (Inl (OtterAIException ''userid is invalid''), s)"
    and "listGroups e s = (Inl (OtterAIException ''userid is invalid''), s)"
    and "getFolders e s = (Inl (OtterAIException ''userid is invalid''), s)"
  using assms
  by (simp_all add: getSpeakers_def getSpeeches_def getAllSpeeches_def
      getAllSpeechesFromAllSources_def getSpeech_def uploadSpeech_def downloadSpeech_def
      moveToTrashBin_def createSpeaker_def listGroups_def getFolders_def isUseridInvalid_def)

text \<open>
  Claim C1. On a client whose user id is \<^verbatim>\<open>null\<close> (no login has succeeded), each of
  \<^verbatim>\<open>getSpeakers\<close>, \<^verbatim>\<open>getSpeeches\<close>, \<^verbatim>\<open>getAllSpeeches\<close>,
  \<^verbatim>\<open>getAllSpeechesFromAllSources\<close>, \<^verbatim>\<open>getSpeech\<close>, \<^verbatim>\<open>uploadSpeech\<close>,
  \<^verbatim>\<open>downloadSpeech\<close>, \<^verbatim>\<open>moveToTrashBin\<close>, \<^verbatim>\<open>createSpeaker\<close>, \<^verbatim>\<open>listGroups\<close>
  and \<^verbatim>\<open>getFolders\<close> throws the exception \<^verbatim>\<open>userid is invalid\<close> and leaves the
  state as it was: no request is added to the log, so no network call is made.
\<close>

theorem unauthenticated_client_rejects_gated_operations:
  assumes "userid s = JNull"
  shows "getSpeakers e s = (Inl (OtterAIException ''userid is invalid''), s)
       \<and> getSpeeches e folder pageSize source s = (Inl (OtterAIException ''userid is invalid''), s)
       \<and> getAllSpeeches e folder source maxSpeeches s = (Inl (OtterAIException ''userid is invalid''), s)
       \<and> getAllSpeechesFromAllSources e folder maxPerSource s = (Inl (OtterAIException ''userid is invalid''), s)
       \<and> getSpeech e speechId s = (Inl (OtterAIException ''userid is invalid''), s)
       \<and> uploadSpeech e fileName contentType s = (Inl (OtterAIException ''userid is invalid''), s)
       \<and> downloadSpeech e speechId name fileFormat s = (Inl (OtterAIException ''userid is invalid''), s)
       \<and> moveToTrashBin e speechId s = (Inl (OtterAIException ''userid is invalid''), s)
       \<and> createSpeaker e speakerName s = (Inl (OtterAIException ''userid is invalid''), s)
       \<and> listGroups e s = (Inl (OtterAIException ''userid is invalid''), s)
       \<and> getFolders e s = (Inl (OtterAIException ''userid is invalid''), s)"
proof -
  from assms have "\<not> truthy (userid s)" by simp
  then show ?thesis by (intro conjI gated_reject)
qed

theorem unauthenticated_client_rejects_gated_operations_witness:
  "userid new_client = JNull
   \<and> getSpeakers (always (answer 200 JNull)) new_client
       = (Inl (OtterAIException ''userid is invalid''), new_client)
   \<and> getSpeeches (always (answer 200 JNull)) (JNum 0) (JNum 45) ''owned'' new_client
       = (Inl (OtterAIException ''userid is invalid''), new_client)
   \<and> uploadSpeech (always (answer 200 JNull)) ''talk.mp4'' ''audio/mp4'' new_client
       = (Inl (OtterAIException ''userid is invalid''), new_client)
   \<and> sent (snd (downloadSpeech (always (answer 200 JNull)) ''id1'' None ''txt'' new_client)) = []"
  using unauthenticated_client_rejects_gated_operations
          [of new_client "always (answer 200 JNull)" "JNum 0" "JNum 45" "''owned''" 1000 500
              "''id1''" "''talk.mp4''" "''audio/mp4''" None "''txt''" "''Bob''"]
  by (simp add: new_client_def)

subsection \<open>Login\<close>

text \<open>
  Claim C8. When the remote side answers the login request with a status other than
  200, \<^verbatim>\<open>login\<close> returns the envelope of that response, and the client's user id,
  its cookies and the session's \<^verbatim>\<open>Cookie\<close> header are what they were before the
  call; the login request is the one request added to the log.
\<close>

theorem failed_login_changes_nothing:
  assumes "net e (sent s) (login_request s username password) = Responds r"
    and "status r \<noteq> 200"
  shows "fst (login e username password s) = Inr \<lparr>status = status r, data = data r\<rparr>
       \<and> userid (snd (login e username password s)) = userid s
       \<and> cookies (snd (login e username password s)) = cookies s
       \<and> default_cookie (snd (login e username password s)) = default_cookie s
       \<and> sent (snd (login e username password s)) = sent s @ [login_request s username password]"
  using assms by (simp add: login_def send_def handleResponse_def)

theorem failed_login_changes_nothing_witness:
  "net (always (answer_with_cookies 401 (JObj [(''userid'', JStr ''u9'')]) [''sessionid=zzz'']))
       (sent new_client) (login_request new_client ''bob'' ''wrong'')
     = Responds (answer_with_cookies 401 (JObj [(''userid'', JStr ''u9'')]) [''sessionid=zzz''])
   \<and> status (answer_with_cookies 401 (JObj [(''userid'', JStr ''u9'')]) [''sessionid=zzz'']) \<noteq> 200
   \<and> fst (login (always (answer_with_cookies 401 (JObj [(''userid'', JStr ''u9'')]) [''sessionid=zzz'']))
          ''bob'' ''wrong'' new_client)
     = Inr \<lparr>status = 401, data = JObj [(''userid'', JStr ''u9'')]\<rparr>
   \<and> userid (snd (login (always (answer_with_cookies 401 (JObj [(''userid'', JStr ''u9'')]) [''sessionid=zzz'']))
          ''bob'' ''wrong'' new_client)) = JNull
   \<and> cookies (snd (login (always (answer_with_cookies 401 (JObj [(''userid'', JStr ''u9'')]) [''sessionid=zzz'']))
          ''bob'' ''wrong'' new_client)) = []
   \<and> default_cookie (snd (login (always (answer_with_cookies 401 (JObj [(''userid'', JStr ''u9'')]) [''sessionid=zzz'']))
          ''bob'' ''wrong'' new_client)) = None"
  using failed_login_changes_nothing
          [of "always (answer_with_cookies 401 (JObj [(''userid'', JStr ''u9'')]) [''sessionid=zzz''])"
              new_client "''bob''" "''wrong''"
              "answer_with_cookies 401 (JObj [(''userid'', JStr ''u9'')]) [''sessionid=zzz'']"]
  by (simp add: always_def answer_with_cookies_def new_client_def)

text \<open>
  Claim C10. When the login request is answered with status 200 and a body in which
  \<^verbatim>\<open>userid\<close> reads as \<^verbatim>\<open>undefined\<close> (an object without that field; also a string, a
  number, a boolean or an array), \<^verbatim>\<open>login\<close> returns the 200 envelope and the
  client's user id becomes \<^verbatim>\<open>undefined\<close>; in the state after the login every
  identity-gated method still throws \<^verbatim>\<open>userid is invalid\<close> without a network call
  (and leaves that state as it is, so the same holds for every later call).
\<close>

theorem login_200_without_userid_does_not_authenticate:
  assumes "net e (sent s) (login_request s username password) = Responds r"
    and "status r = 200"
    and "js_get (data r) ''userid'' = Inr JUndefined"
  shows "fst (login e username password s) = Inr \<lparr>status = 200, data = data r\<rparr>
       \<and> userid (snd (login e username password s)) = JUndefined
       \<and> (let s' = snd (login e username password s) in
            getSpeakers e s' = (Inl (OtterAIException ''userid is invalid''), s')
          \<and> getSpeeches e folder pageSize source s' = (Inl (OtterAIException ''userid is invalid''), s')
          \<and> getAllSpeeches e folder source maxSpeeches s' = (Inl (OtterAIException ''userid is invalid''), s')
          \<and> getAllSpeechesFromAllSources e folder maxPerSource s' = (Inl (OtterAIException ''userid is invalid''), s')
          \<and> getSpeech e speechId s' = (Inl (OtterAIException ''userid is invalid''), s')
          \<and> uploadSpeech e fileName contentType s' = (Inl (OtterAIException ''userid is invalid''), s')
          \<and> downloadSpeech e speechId name fileFormat s' = (Inl (OtterAIException ''userid is invalid''), s')
          \<and> moveToTrashBin e speechId s' = (Inl (OtterAIException ''userid is invalid''), s')
          \<and> createSpeaker e speakerName s' = (Inl (OtterAIException ''userid is invalid''), s')
          \<and> listGroups e s' = (Inl (OtterAIException ''userid is invalid''), s')
          \<and> getFolders e s' = (Inl (OtterAIException ''userid is invalid''), s'))"
proof -
  have u: "userid (snd (login e username password s)) = JUndefined"
    using assms
    by (simp add: login_def send_def setCookieHeader_def)
  have r: "fst (login e username password s) = Inr \<lparr>status = 200, data = data r\<rparr>"
    using assms
    by (simp add: login_def send_def handleResponse_def)
  from u have "\<not> truthy (userid (snd (login e username password s)))" by simp
  then show ?thesis
    using u r unfolding Let_def by (intro conjI gated_reject)
qed

theorem login_200_without_userid_does_not_authenticate_witness:
  "net (always (answer_with_cookies 200 (JObj [(''message'', JStr ''ok'')]) [''sessionid=abc'']))
       (sent new_client) (login_request new_client ''bob'' ''pw'')
     = Responds (answer_with_cookies 200 (JObj [(''message'', JStr ''ok'')]) [''sessionid=abc''])
   \<and> status (answer_with_cookies 200 (JObj [(''message'', JStr ''ok'')]) [''sessionid=abc'']) = 200
   \<and> js_get (data (answer_with_cookies 200 (JObj [(''message'', JStr ''ok'')]) [''sessionid=abc'']))
         ''userid'' = Inr JUndefined
   \<and> fst (login (always (answer_with_cookies 200 (JObj [(''message'', JStr ''ok'')]) [''sessionid=abc'']))
          ''bob'' ''pw'' new_client)
     = Inr \<lparr>status = 200, data = JObj [(''message'', JStr ''ok'')]\<rparr>
   \<and> userid (snd (login (always (answer_with_cookies 200 (JObj [(''message'', JStr ''ok'')]) [''sessionid=abc'']))
          ''bob'' ''pw'' new_client)) = JUndefined
   \<and> fst (getSpeakers (always (answer_with_cookies 200 (JObj [(''message'', JStr ''ok'')]) [''sessionid=abc'']))
          (snd (login (always (answer_with_cookies 200 (JObj [(''message'', JStr ''ok'')]) [''sessionid=abc'']))
                 ''bob'' ''pw'' new_client)))
     = Inl (OtterAIException ''userid is invalid'')"
  using login_200_without_userid_does_not_authenticate
          [of "always (answer_with_cookies 200 (JObj [(''message'', JStr ''ok'')]) [''sessionid=abc''])"
              new_client "''bob''" "''pw''"
              "answer_with_cookies 200 (JObj [(''message'', JStr ''ok'')]) [''sessionid=abc'']"]
  by (simp add: always_def answer_with_cookies_def new_client_def Let_def)

subsection \<open>The upload pipeline\<close>

text \<open>
  Claim C5. When the upload parameters were fetched (status 200, a body with a readable
  \<^verbatim>\<open>data\<close>) and the preflight OPTIONS request is answered with a status other than
  200, \<^verbatim>\<open>uploadSpeech\<close> returns the envelope of the preflight response, and the
  requests it sent are exactly the parameter request and the preflight: no POST to the
  object store and no finish call.
\<close>

theorem preflight_failure_aborts_upload:
  assumes "truthy (userid s)"
    and "net e (sent s) (upload_params_request s) = Responds response"
    and "status response = 200"
    and "js_get (data response) ''data'' = Inr paramsData"
    and "net e (sent s @ [upload_params_request s]) (options_request s) = Responds optionsResponse"
    and "status optionsResponse \<noteq> 200"
  shows "fst (uploadSpeech e fileName contentType s)
           = Inr \<lparr>status = status optionsResponse, data = data optionsResponse\<rparr>
       \<and> sent (snd (uploadSpeech e fileName contentType s))
           = sent s @ [upload_params_request s, options_request s]
       \<and> (\<forall>rq \<in> set (sent_since s (snd (uploadSpeech e fileName contentType s))).
             meth rq \<noteq> POST \<and> url rq \<noteq> API_BASE_URL @ ''finish_speech_upload'')"
proof -
  have o: "options_request (s\<lparr>sent := sent s @ [upload_params_request s]\<rparr>) = options_request s"
    by (simp add: options_request_def session_request_def)
  have run: "uploadSpeech e fileName contentType s
      = (Inr \<lparr>status = status optionsResponse, data = data optionsResponse\<rparr>,
         s\<lparr>sent := sent s @ [upload_params_request s, options_request s]\<rparr>)"
    using assms by (simp add: uploadSpeech_def isUseridInvalid_def send_def handleResponse_def o)
  have "meth (upload_params_request s) = GET" "meth (options_request s) = OPTIONS"
    "url (upload_params_request s) \<noteq> API_BASE_URL @ ''finish_speech_upload''"
    "url (options_request s) \<noteq> API_BASE_URL @ ''finish_speech_upload''"
    by (simp_all add: upload_params_request_def options_request_def session_request_def
          API_BASE_URL_def S3_BASE_URL_def)
  then show ?thesis
    by (simp add: run sent_since_def)
qed

theorem preflight_failure_aborts_upload_witness:
  "truthy (userid logged_in)
   \<and> fst (uploadSpeech preflight_refused ''talk.mp4'' ''audio/mp4'' logged_in)
      = Inr \<lparr>status = 403, data = JStr ''Forbidden''\<rparr>
   \<and> sent (snd (uploadSpeech preflight_refused ''talk.mp4'' ''audio/mp4'' logged_in))
      = [upload_params_request logged_in, options_request logged_in]
   \<and> map meth (sent (snd (uploadSpeech preflight_refused ''talk.mp4'' ''audio/mp4'' logged_in)))
      = [GET, OPTIONS]"
  using preflight_failure_aborts_upload
     [of logged_in preflight_refused
         "answer 200 (JObj [(''data'', JObj [(''key'', JStr ''k''), (''success_action_status'', JNum 201)])])"
         "JObj [(''key'', JStr ''k''), (''success_action_status'', JNum 201)]"
         "answer 403 (JStr ''Forbidden'')" "''talk.mp4''" "''audio/mp4''"]
  by (simp add: preflight_refused_def scripted_def answer_def logged_in_def
        upload_params_request_def options_request_def session_request_def)

text \<open>
  Assigning a property leaves one value under its name, and deleting a property leaves
  none; the form of step 3 is built from \<^verbatim>\<open>paramsData\<close> after both.
\<close>

lemma insert_index_set: "set (insert_index k v kvs) = insert (k, v) (set kvs)"
  by (induction kvs) (auto split: if_splits)

lemma obj_put_key: "(k, x) \<in> set (obj_put k v kvs) \<Longrightarrow> x = v"
  by (auto simp: obj_put_def insert_index_set image_iff split: if_splits)

lemma obj_put_has: "(k, v) \<in> set (obj_put k v kvs)"
  by (force simp: obj_put_def insert_index_set image_iff case_prod_beta)

lemma obj_delete_set: "set (obj_delete k kvs) = {p \<in> set kvs. fst p \<noteq> k}"
  by (auto simp: obj_delete_def)

lemma upload_form_status:
  "(''success_action_status'', Field (JStr st)) \<in>
     set (upload_form (obj_delete ''form_action'' (obj_put ''success_action_status'' (JStr st) kvs)) f c)"
  using obj_put_has [of "''success_action_status''" "JStr st" kvs]
  by (force simp: upload_form_def obj_delete_set)

lemma upload_form_status_only:
  assumes "(''success_action_status'', v) \<in>
     set (upload_form (obj_delete ''form_action'' (obj_put ''success_action_status'' (JStr st) kvs)) f c)"
  shows "v = Field (JStr st)"
  using assms obj_put_key [of "''success_action_status''" _ "JStr st" kvs]
  by (auto simp: upload_form_def obj_delete_set)

lemma upload_form_no_form_action:
  "''form_action'' \<notin> fst ` set (upload_form (obj_delete ''form_action'' kvs) f c)"
  by (auto simp: upload_form_def obj_delete_set)

lemma finish_upload_sent:
  "\<exists>new. sent (snd (finish_upload e r s)) = sent s @ new \<and> (\<forall>rq\<in>set new. body rq = NoBody)"
  by (auto simp: finish_upload_def send_def finish_request_def session_request_def
      split: sum.splits outcome.splits prod.splits)

lemma post_file_sent:
  "\<exists>new. sent (snd (post_file e pd f c s)) = sent s @ new \<and>
     (\<forall>rq\<in>set new. body rq = NoBody \<or>
        (\<exists>st kvs. body rq = Multipart
           (upload_form (obj_delete ''form_action''
              (obj_put ''success_action_status'' (JStr st) kvs)) f c)))"
proof (cases "js_get pd ''success_action_status''")
  case (Inl te)
  then show ?thesis by (simp add: post_file_def)
next
  case (Inr st)
  show ?thesis
  proof (cases "own_props pd")
    case None
    with Inr show ?thesis by (simp add: post_file_def)
  next
    case (Some kvs)
    let ?form = "upload_form (obj_delete ''form_action''
              (obj_put ''success_action_status'' (JStr (js_String st)) kvs)) f c"
    let ?s1 = "s\<lparr>sent := sent s @ [post_request ?form]\<rparr>"
    have b: "body (post_request ?form) = Multipart ?form"
      by (simp add: post_request_def)
    show ?thesis
    proof (cases "net e (sent s) (post_request ?form)")
      case (Throws m)
      with Inr Some b show ?thesis
        by (auto simp: post_file_def send_def Let_def)
    next
      case (Responds r)
      show ?thesis
      proof (cases "status r = 201")
        case False
        with Inr Some b Responds show ?thesis
          by (auto simp: post_file_def send_def Let_def)
      next
        case True
        obtain new where n: "sent (snd (finish_upload e r ?s1)) = sent ?s1 @ new"
          "\<forall>rq\<in>set new. body rq = NoBody"
          using finish_upload_sent [of e r ?s1] by blast
        have "sent (snd (post_file e pd f c s)) = sent s @ (post_request ?form # new)"
          using Inr Some Responds True n(1)
          by (simp add: post_file_def send_def Let_def)
        moreover have "\<forall>rq\<in>set (post_request ?form # new). body rq = NoBody \<or>
          (\<exists>st kvs. body rq = Multipart
           (upload_form (obj_delete ''form_action''
              (obj_put ''success_action_status'' (JStr st) kvs)) f c))"
          using n(2) b by auto
        ultimately show ?thesis by blast
      qed
    qed
  qed
qed

lemma uploadSpeech_sent:
  "\<exists>new. sent (snd (uploadSpeech e f c s)) = sent s @ new \<and>
     (\<forall>rq\<in>set new. body rq = NoBody \<or>
        (\<exists>st kvs. body rq = Multipart
           (upload_form (obj_delete ''form_action''
              (obj_put ''success_action_status'' (JStr st) kvs)) f c)))"
proof -
  let ?Q = "\<lambda>rq. body rq = NoBody \<or>
        (\<exists>st kvs. body rq = Multipart
           (upload_form (obj_delete ''form_action''
              (obj_put ''success_action_status'' (JStr st) kvs)) f c))"
  let ?s1 = "s\<lparr>sent := sent s @ [upload_params_request s]\<rparr>"
  let ?s2 = "?s1\<lparr>sent := sent ?s1 @ [options_request ?s1]\<rparr>"
  have b1: "?Q (upload_params_request s)" "?Q (options_request ?s1)"
    by (simp_all add: upload_params_request_def options_request_def session_request_def)
  have "snd (uploadSpeech e f c s) = s \<or> snd (uploadSpeech e f c s) = ?s1
      \<or> snd (uploadSpeech e f c s) = ?s2
      \<or> (\<exists>pd. snd (uploadSpeech e f c s) = snd (post_file e pd f c ?s2))"
    by (auto simp: uploadSpeech_def send_def split: outcome.splits sum.splits)
  then consider (stop0) "snd (uploadSpeech e f c s) = s"
    | (stop1) "snd (uploadSpeech e f c s) = ?s1"
    | (stop2) "snd (uploadSpeech e f c s) = ?s2"
    | (post) pd where "snd (uploadSpeech e f c s) = snd (post_file e pd f c ?s2)"
    by blast
  then show ?thesis
  proof cases
    case stop0
    then show ?thesis by simp
  next
    case stop1
    have "sent ?s1 = sent s @ [upload_params_request s]" by simp
    with b1 stop1 show ?thesis by (metis (no_types, lifting) list.set(1) empty_iff set_ConsD)
  next
    case stop2
    have "sent ?s2 = sent s @ [upload_params_request s, options_request ?s1]" by simp
    moreover have "\<forall>rq\<in>set [upload_params_request s, options_request ?s1]. ?Q rq"
      using b1 by simp
    ultimately show ?thesis using stop2 by metis
  next
    case (post pd)
    obtain new where n: "sent (snd (post_file e pd f c ?s2)) = sent ?s2 @ new" "\<forall>rq\<in>set new. ?Q rq"
      using post_file_sent [of e pd f c ?s2] by blast
    have "sent (snd (uploadSpeech e f c s))
        = sent s @ (upload_params_request s # options_request ?s1 # new)"
      using post n(1) by simp
    moreover have "\<forall>rq\<in>set (upload_params_request s # options_request ?s1 # new). ?Q rq"
      using b1 n(2) by simp
    ultimately show ?thesis by blast
  qed
qed

text \<open>
  Claim C7. Every multipart form that \<^verbatim>\<open>uploadSpeech\<close> sends has a
  \<^verbatim>\<open>success_action_status\<close> field, every field of that name holds a string, whatever
  the upload parameters held under it, and no field is named \<^verbatim>\<open>form_action\<close>.
\<close>

theorem upload_form_status_is_string_without_form_action:
  assumes "rq \<in> set (sent_since s (snd (uploadSpeech e fileName contentType s)))"
    and "body rq = Multipart formData"
  shows "(\<exists>str. (''success_action_status'', Field (JStr str)) \<in> set formData)
       \<and> (\<forall>v. (''success_action_status'', v) \<in> set formData \<longrightarrow> (\<exists>str. v = Field (JStr str)))
       \<and> ''form_action'' \<notin> fst ` set formData"
proof -
  obtain new where n: "sent (snd (uploadSpeech e fileName contentType s)) = sent s @ new"
    "\<forall>rq\<in>set new. body rq = NoBody \<or>
        (\<exists>st kvs. body rq = Multipart
           (upload_form (obj_delete ''form_action''
              (obj_put ''success_action_status'' (JStr st) kvs)) fileName contentType))"
    using uploadSpeech_sent [of e fileName contentType s] by blast
  from assms(1) n(1) have "rq \<in> set new" by (simp add: sent_since_def)
  with n(2) assms(2) obtain st kvs where f: "formData =
     upload_form (obj_delete ''form_action''
              (obj_put ''success_action_status'' (JStr st) kvs)) fileName contentType"
    by fastforce
  show ?thesis
    unfolding f
    using upload_form_status [of st kvs fileName contentType]
          upload_form_status_only [of _ st kvs fileName contentType]
          upload_form_no_form_action [of "obj_put ''success_action_status'' (JStr st) kvs" fileName contentType]
    by blast
qed

text \<open>
  The accepted upload, step by step: the status 201 arrives as a number and is posted as
  the string \<^verbatim>\<open>201\<close>, and the \<^verbatim>\<open>form_action\<close> of the parameters is not posted.
\<close>

lemma upload_accepted_run:
  "uploadSpeech upload_accepted ''media/talk.mp4'' ''audio/mp4'' logged_in
     = (Inr \<lparr>status = 200, data = JObj [(''status'', JStr ''OK'')]\<rparr>,
        logged_in\<lparr>sent :=
          [upload_params_request logged_in, options_request logged_in, post_request posted_form,
           finish_request logged_in (JObj
             [(''Location'', JStr ''https://s3.us-west-2.amazonaws.com/speech-upload-prod/uploads%2Fk1''),
              (''Bucket'', JStr ''speech-upload-prod''),
              (''Key'', JStr ''uploads/k1'')])]\<rparr>)"
  by (simp add: uploadSpeech_def post_file_def finish_upload_def upload_accepted_def scripted_def
      send_def isUseridInvalid_def logged_in_def answer_def handleResponse_def
      upload_params_request_def options_request_def post_request_def finish_request_def
      session_request_def upload_form_def obj_put_def obj_delete_def posted_form_def
      basename_def show_int_def js_get_opt_def Let_def)

theorem upload_form_status_is_string_without_form_action_witness:
  "post_request posted_form
     \<in> set (sent_since logged_in
              (snd (uploadSpeech upload_accepted ''media/talk.mp4'' ''audio/mp4'' logged_in)))
   \<and> body (post_request posted_form) = Multipart posted_form
   \<and> (''success_action_status'', Field (JStr ''201'')) \<in> set posted_form
   \<and> ''form_action'' \<notin> fst ` set posted_form"
proof -
  have m: "post_request posted_form
     \<in> set (sent_since logged_in
              (snd (uploadSpeech upload_accepted ''media/talk.mp4'' ''audio/mp4'' logged_in)))"
    unfolding sent_since_def upload_accepted_run by (simp add: logged_in_def)
  have b: "body (post_request posted_form) = Multipart posted_form"
    by (simp add: post_request_def)
  from upload_form_status_is_string_without_form_action [OF m b] m b
  show ?thesis by (simp add: posted_form_def)
qed

subsection \<open>Aggregation over the sources\<close>

text \<open>
  A result of \<^verbatim>\<open>getAllSpeeches\<close> carries a truthy \<^verbatim>\<open>speeches\<close> whose length can be
  read, so a round of the loop either stores the empty array for its source or stores
  the speeches and adds their length to the total.
\<close>

lemma getAllSpeeches_result:
  assumes "getAllSpeeches e folder source m s = (Inr r, s1)"
  shows "\<exists>speeches len. truthy speeches \<and> js_get speeches ''length'' = Inr len \<and>
           js_get_opt (data r) ''speeches'' = speeches \<and>
           js_get (data r) ''speeches'' = Inr speeches"
  using assms
  by (auto simp: getAllSpeeches_def Let_def js_get_opt_def
      split: if_splits prod.splits sum.splits exn.splits)

lemma fetch_source_cases:
  "fst (fetch_source e folder m source all s) = obj_put source (JArr []) all
   \<or> (\<exists>speeches len. truthy speeches \<and> js_get speeches ''length'' = Inr len \<and>
        fst (fetch_source e folder m source all s)
          = obj_put ''total'' (js_add (own_prop (obj_put source speeches all) ''total'') len)
              (obj_put source speeches all))"
proof (cases "getAllSpeeches e folder source m s")
  case (Pair ro s1)
  show ?thesis
  proof (cases ro)
    case (Inl x)
    with Pair show ?thesis by (simp add: fetch_source_def)
  next
    case (Inr r)
    with Pair getAllSpeeches_result [of e folder source m s r s1]
    obtain speeches len where "truthy speeches" "js_get speeches ''length'' = Inr len"
      "js_get_opt (data r) ''speeches'' = speeches" "js_get (data r) ''speeches'' = Inr speeches"
      by blast
    with Pair Inr show ?thesis
      by (auto simp: fetch_source_def Let_def)
  qed
qed

lemma spread_length:
  assumes "js_spread src v = Inr xs"
  shows "js_get v ''length'' = Inr (JNum (int (length xs)))"
  using assms by (cases v) auto

lemma js_add_nums: "js_add (JNum a) (JNum b) = JNum (a + b)"
  by (simp add: js_add_def)

lemma put_owned:
  "obj_put ''owned'' v [(''owned'', a), (''shared'', b), (''total'', t)]
     = [(''owned'', v), (''shared'', b), (''total'', t)]"
  by (simp add: obj_put_def)

lemma put_shared:
  "obj_put ''shared'' v [(''owned'', a), (''shared'', b), (''total'', t)]
     = [(''owned'', a), (''shared'', v), (''total'', t)]"
  by (simp add: obj_put_def)

lemma put_total:
  "obj_put ''total'' v [(''owned'', a), (''shared'', b), (''total'', t)]
     = [(''owned'', a), (''shared'', b), (''total'', v)]"
  by (simp add: obj_put_def)

lemma own_prop_all:
  "own_prop [(''owned'', a), (''shared'', b), (''total'', t)] ''owned'' = a"
  "own_prop [(''owned'', a), (''shared'', b), (''total'', t)] ''shared'' = b"
  "own_prop [(''owned'', a), (''shared'', b), (''total'', t)] ''total'' = t"
  by (simp_all add: own_prop_def)

lemma owned_round:
  "\<exists>a t. fst (fetch_source e folder m ''owned''
                 [(''owned'', JArr []), (''shared'', JArr []), (''total'', JNum 0)] s)
            = [(''owned'', a), (''shared'', JArr []), (''total'', t)]
         \<and> (\<forall>src xs. js_spread src a = Inr xs \<longrightarrow> t = JNum (int (length xs)))"
  using fetch_source_cases [of e folder m "''owned''"
          "[(''owned'', JArr []), (''shared'', JArr []), (''total'', JNum 0)]" s]
  by (auto simp: put_owned put_total own_prop_all js_add_nums dest!: spread_length)

lemma shared_round:
  "\<exists>b t'. fst (fetch_source e folder m ''shared''
                 [(''owned'', a), (''shared'', JArr []), (''total'', t)] s)
            = [(''owned'', a), (''shared'', b), (''total'', t')]
         \<and> (\<forall>src xs n. js_spread src b = Inr xs \<longrightarrow> t = JNum n
               \<longrightarrow> t' = JNum (n + int (length xs)))"
  using fetch_source_cases [of e folder m "''shared''"
          "[(''owned'', a), (''shared'', JArr []), (''total'', t)]" s]
  by (auto simp: put_shared put_total own_prop_all js_add_nums dest!: spread_length)

text \<open>
  Claim C4. Whenever \<^verbatim>\<open>getAllSpeechesFromAllSources\<close> returns a result, it has status
  200 and holds the owned and the shared speeches as they were kept for the two sources;
  \<^verbatim>\<open>all_speeches\<close> is the elements of the owned ones followed by the elements of the
  shared ones, each in its own order, \<^verbatim>\<open>owned_count\<close> and \<^verbatim>\<open>shared_count\<close> are the
  two lengths, and \<^verbatim>\<open>total_count\<close> (and the \<^verbatim>\<open>total\<close> kept with the sources) is
  their sum, which is the length of \<^verbatim>\<open>all_speeches\<close>. For an array the elements
  that \<open>js_spread\<close> yields are the array's own list.
\<close>

theorem merged_speeches_are_owned_then_shared:
  assumes "fst (getAllSpeechesFromAllSources e folder maxPerSource s) = Inr result"
  shows "\<exists>owned shared ownedList sharedList.
           js_spread ''allSpeeches.owned'' owned = Inr ownedList
         \<and> js_spread ''allSpeeches.shared'' shared = Inr sharedList
         \<and> result = \<lparr>status = 200, data = JObj
              [(''status'', JStr ''OK''),
               (''speeches_by_source'', JObj
                  [(''owned'', owned), (''shared'', shared),
                   (''total'', JNum (int (length ownedList) + int (length sharedList)))]),
               (''all_speeches'', JArr (ownedList @ sharedList)),
               (''summary'', JObj
                  [(''owned_count'', JNum (int (length ownedList))),
                   (''shared_count'', JNum (int (length sharedList))),
                   (''total_count'', JNum (int (length ownedList) + int (length sharedList)))])]\<rparr>"
proof -
  let ?all0 = "[(''owned'', JArr []), (''shared'', JArr []), (''total'', JNum 0)]"
  obtain all1 s1 where r1: "fetch_source e folder maxPerSource ''owned'' ?all0 s = (all1, s1)"
    by (cases "fetch_source e folder maxPerSource ''owned'' ?all0 s")
  obtain all2 s2 where r2: "fetch_source e folder maxPerSource ''shared'' all1 s1 = (all2, s2)"
    by (cases "fetch_source e folder maxPerSource ''shared'' all1 s1")
  from owned_round [of e folder maxPerSource s] r1
  obtain a t where a: "all1 = [(''owned'', a), (''shared'', JArr []), (''total'', t)]"
    and t: "\<And>src xs. js_spread src a = Inr xs \<Longrightarrow> t = JNum (int (length xs))"
    by auto
  have loop: "fetch_sources e folder maxPerSource [''owned'', ''shared''] ?all0 s = (all2, s2)"
    using r1 r2 by simp
  have valid: "\<not> isUseridInvalid s"
    using assms by (auto simp: getAllSpeechesFromAllSources_def)
  from assms valid loop obtain ownedList where o: "js_spread ''allSpeeches.owned'' (own_prop all2 ''owned'') = Inr ownedList"
    by (auto simp: getAllSpeechesFromAllSources_def split: sum.splits)
  from assms valid loop o obtain sharedList where sh: "js_spread ''allSpeeches.shared'' (own_prop all2 ''shared'') = Inr sharedList"
    by (auto simp: getAllSpeechesFromAllSources_def split: sum.splits)
  from shared_round [of e folder maxPerSource a t s1] r2 a
  obtain b t' where b: "all2 = [(''owned'', a), (''shared'', b), (''total'', t')]"
    and t': "\<And>src xs n. js_spread src b = Inr xs \<Longrightarrow> t = JNum n
               \<Longrightarrow> t' = JNum (n + int (length xs))"
    by auto
  from o b have oa: "js_spread ''allSpeeches.owned'' a = Inr ownedList"
    by (simp add: own_prop_all)
  from sh b have sb: "js_spread ''allSpeeches.shared'' b = Inr sharedList"
    by (simp add: own_prop_all)
  have tot: "t' = JNum (int (length ownedList) + int (length sharedList))"
    using t [OF oa] t' [OF sb] by simp
  have la: "js_get_opt a ''length'' = JNum (int (length ownedList))"
    using spread_length [OF oa] by (simp add: js_get_opt_def)
  have lb: "js_get_opt b ''length'' = JNum (int (length sharedList))"
    using spread_length [OF sb] by (simp add: js_get_opt_def)
  have "result = \<lparr>status = 200, data = JObj
              [(''status'', JStr ''OK''),
               (''speeches_by_source'', JObj
                  [(''owned'', a), (''shared'', b),
                   (''total'', JNum (int (length ownedList) + int (length sharedList)))]),
               (''all_speeches'', JArr (ownedList @ sharedList)),
               (''summary'', JObj
                  [(''owned_count'', JNum (int (length ownedList))),
                   (''shared_count'', JNum (int (length sharedList))),
                   (''total_count'', JNum (int (length ownedList) + int (length sharedList)))])]\<rparr>"
    using assms valid loop o sh b tot la lb
    by (simp add: getAllSpeechesFromAllSources_def own_prop_all)
  with oa sb show ?thesis by blast
qed

lemmas run_defs = getAllSpeechesFromAllSources_def fetch_source_def getAllSpeeches_def
  getSpeeches_def send_def session_request_def isUseridInvalid_def handleResponse_def
  scripted_def answer_def logged_in_def js_get_opt_def own_prop_def obj_put_def js_add_def
  Let_def API_BASE_URL_def

lemma both_sources_run:
  "fst (getAllSpeechesFromAllSources both_sources (JNum 0) 500 logged_in)
     = Inr \<lparr>status = 200, data = JObj
              [(''status'', JStr ''OK''),
               (''speeches_by_source'', JObj
                  [(''owned'', JArr owned_page), (''shared'', JArr shared_page),
                   (''total'', JNum 3)]),
               (''all_speeches'', JArr (owned_page @ shared_page)),
               (''summary'', JObj
                  [(''owned_count'', JNum 2),
                   (''shared_count'', JNum 1),
                   (''total_count'', JNum 3)])]\<rparr>"
  by (simp add: run_defs both_sources_def owned_page_def shared_page_def)

theorem merged_speeches_are_owned_then_shared_witness:
  "fst (getAllSpeechesFromAllSources both_sources (JNum 0) 500 logged_in)
     = Inr \<lparr>status = 200, data = JObj
              [(''status'', JStr ''OK''),
               (''speeches_by_source'', JObj
                  [(''owned'', JArr owned_page), (''shared'', JArr shared_page),
                   (''total'', JNum 3)]),
               (''all_speeches'', JArr (owned_page @ shared_page)),
               (''summary'', JObj
                  [(''owned_count'', JNum 2),
                   (''shared_count'', JNum 1),
                   (''total_count'', JNum 3)])]\<rparr>
   \<and> js_spread ''allSpeeches.owned'' (JArr owned_page) = Inr owned_page
   \<and> js_spread ''allSpeeches.shared'' (JArr shared_page) = Inr shared_page
   \<and> int (length owned_page) + int (length shared_page) = 3"
  using merged_speeches_are_owned_then_shared [OF both_sources_run] both_sources_run
  by (simp add: owned_page_def shared_page_def)








subsection \<open>Download\<close>

text \<open>
  Claim C9, where it fails. The claim names the file \<^verbatim>\<open>(name ?? speechId)\<close> plus
  extension, which for the empty string as name is the extension alone. The method
  computes \<^verbatim>\<open>name || speechId\<close>: with the empty name, speech id \<^verbatim>\<open>id1\<close> and format
  \<^verbatim>\<open>txt\<close> it writes and reports \<^verbatim>\<open>id1.txt\<close>, not \<^verbatim>\<open>.txt\<close>.
\<close>

theorem download_empty_name_uses_speech_id:
  "fst (downloadSpeech (always (answer 200 (JStr ''bytes''))) ''id1'' (Some []) ''txt'' logged_in)
     = Inr \<lparr>status = 200, data = JObj [(''filename'', JStr ''id1.txt'')]\<rparr>
   \<and> written (snd (downloadSpeech (always (answer 200 (JStr ''bytes''))) ''id1'' (Some []) ''txt''
                       logged_in))
     = [(''id1.txt'', JStr ''bytes'')]
   \<and> spec_filename ''id1'' (Some []) ''txt'' = ''.txt''
   \<and> ''id1.txt'' \<noteq> spec_filename ''id1'' (Some []) ''txt''"
  by (simp add: downloadSpeech_def download_request_def send_def always_def answer_def
      logged_in_def isUseridInvalid_def handleResponse_def spec_filename_def Let_def)

text \<open>
  Claim C9, amended. A download that is answered with status 200 and whose file is
  written without error writes the received data under, and reports, the file name
  made of the name when it is neither \<^verbatim>\<open>null\<close> nor empty and of the speech id
  otherwise, a dot, and \<^verbatim>\<open>zip\<close> when the format contains a comma and the format
  otherwise. In particular \<^verbatim>\<open>downloadSpeech("id1", null, "txt,pdf")\<close> gives
  \<^verbatim>\<open>id1.zip\<close> and \<^verbatim>\<open>downloadSpeech("id1", "custom", "txt")\<close> gives \<^verbatim>\<open>custom.txt\<close>.
\<close>

theorem download_file_name:
  assumes "truthy (userid s)"
    and "net e (sent s) (download_request s speechId fileFormat) = Responds r"
    and "status r = 200"
    and "filename = (case name of None \<Rightarrow> speechId | Some n \<Rightarrow> if n = [] then speechId else n)
                     @ ''.'' @ (if CHR '','' \<in> set fileFormat then ''zip'' else fileFormat)"
    and "fs_write e filename (data r) = None"
  shows "fst (downloadSpeech e speechId name fileFormat s)
           = Inr \<lparr>status = 200, data = JObj [(''filename'', JStr filename)]\<rparr>
       \<and> written (snd (downloadSpeech e speechId name fileFormat s))
           = written s @ [(filename, data r)]"
proof -
  have fn: "(case name of None \<Rightarrow> speechId | Some n \<Rightarrow> if n \<noteq> [] then n else speechId)
              @ ''.'' @ (if CHR '','' \<in> set fileFormat then ''zip'' else fileFormat) = filename"
    using assms(4) by (cases name) simp_all
  show ?thesis
    unfolding downloadSpeech_def Let_def fn
    using assms(1,2,3,5)
    by (simp add: send_def isUseridInvalid_def handleResponse_def)
qed

theorem download_file_name_witness:
  "truthy (userid logged_in)
   \<and> fst (downloadSpeech (always (answer 200 (JStr ''bytes''))) ''id1'' None ''txt,pdf'' logged_in)
       = Inr \<lparr>status = 200, data = JObj [(''filename'', JStr ''id1.zip'')]\<rparr>
   \<and> written (snd (downloadSpeech (always (answer 200 (JStr ''bytes''))) ''id1'' None ''txt,pdf''
                       logged_in))
       = [(''id1.zip'', JStr ''bytes'')]
   \<and> fst (downloadSpeech (always (answer 200 (JStr ''bytes''))) ''id1'' (Some ''custom'') ''txt''
            logged_in)
       = Inr \<lparr>status = 200, data = JObj [(''filename'', JStr ''custom.txt'')]\<rparr>
   \<and> written (snd (downloadSpeech (always (answer 200 (JStr ''bytes''))) ''id1'' (Some ''custom'')
                       ''txt'' logged_in))
       = [(''custom.txt'', JStr ''bytes'')]"
  using download_file_name
          [of logged_in "always (answer 200 (JStr ''bytes''))" "''id1''" "''txt,pdf''"
              "answer 200 (JStr ''bytes'')" "''id1.zip''" None]
        download_file_name
          [of logged_in "always (answer 200 (JStr ''bytes''))" "''id1''" "''txt''"
              "answer 200 (JStr ''bytes'')" "''custom.txt''" "Some ''custom''"]
  by (simp add: always_def answer_def logged_in_def)

subsection \<open>Logging in again\<close>

text \<open>
  Every method other than \<^verbatim>\<open>login\<close> keeps the session: it leaves user id, cookies and
  default header alone, and the requests it sends carry the default \<^verbatim>\<open>Cookie\<close> header
  (the POST to the object store none) and, as \<^verbatim>\<open>x-csrftoken\<close>, the token among the
  cookies.
\<close>

lemma keeps_sessionI:
  assumes "userid s' = userid s" "cookies s' = cookies s" "default_cookie s' = default_cookie s"
    and "sent s' = sent s @ new"
    and "list_all (carries (default_cookie s) (csrftoken s)) new"
  shows "keeps_session s s'"
  using assms by (simp add: keeps_session_def sent_since_def)

lemma keeps_session_refl: "keeps_session s s"
  by (simp add: keeps_session_def sent_since_def)

lemma keeps_session_sent:
  assumes "keeps_session s s'"
  shows "sent s' = sent s @ sent_since s s'"
  using assms append_take_drop_id [of "length (sent s)" "sent s'"]
  by (simp add: keeps_session_def sent_since_def)

lemma csrftoken_cong: "cookies s' = cookies s \<Longrightarrow> csrftoken s' = csrftoken s"
  by (simp add: csrftoken_def)

lemma keeps_session_trans:
  assumes "keeps_session s s'" and "keeps_session s' s''"
  shows "keeps_session s s''"
proof -
  from assms(1) have a: "userid s' = userid s" "cookies s' = cookies s"
    "default_cookie s' = default_cookie s"
    "list_all (carries (default_cookie s) (csrftoken s)) (sent_since s s')"
    by (simp_all add: keeps_session_def)
  from assms(2) have b: "userid s'' = userid s'" "cookies s'' = cookies s'"
    "default_cookie s'' = default_cookie s'"
    "list_all (carries (default_cookie s') (csrftoken s')) (sent_since s' s'')"
    by (simp_all add: keeps_session_def)
  have "sent s'' = sent s @ (sent_since s s' @ sent_since s' s'')"
    using keeps_session_sent [OF assms(1)] keeps_session_sent [OF assms(2)] by simp
  moreover have "list_all (carries (default_cookie s) (csrftoken s))
      (sent_since s s' @ sent_since s' s'')"
    using a b csrftoken_cong [OF a(2)] by simp
  ultimately show ?thesis
    using a b by (intro keeps_sessionI [where new = "sent_since s s' @ sent_since s' s''"]) simp_all
qed

lemma session_request_carries:
  assumes "list_all (\<lambda>(h, v). h = ''x-csrftoken'' \<longrightarrow> v = csrftoken s) hs"
  shows "carries (default_cookie s) (csrftoken s) (session_request s m u ps hs b)"
  using assms by (simp add: carries_def session_request_def)

lemma send_keeps:
  assumes "carries (default_cookie s) (csrftoken s) rq"
  shows "keeps_session s (snd (send e rq s))"
  using assms by (intro keeps_sessionI [where new = "[rq]"]) (simp_all add: send_def)

lemma send_snd: "snd (send e rq s) = s\<lparr>sent := sent s @ [rq]\<rparr>"
  by (simp add: send_def)

lemma sent_keeps:
  assumes "carries (default_cookie s) (csrftoken s) rq"
  shows "keeps_session s (s\<lparr>sent := sent s @ [rq]\<rparr>)"
  using assms by (intro keeps_sessionI [where new = "[rq]"]) simp_all

lemma getUser_keeps: "keeps_session s (snd (getUser e s))"
  using sent_keeps [OF session_request_carries, of s "[]"]
  by (auto simp: getUser_def send_def keeps_session_refl split: outcome.splits)

lemma getSpeakers_keeps: "keeps_session s (snd (getSpeakers e s))"
  using sent_keeps [OF session_request_carries, of s "[]"]
  by (auto simp: getSpeakers_def send_def keeps_session_refl split: outcome.splits)

lemma getSpeeches_keeps: "keeps_session s (snd (getSpeeches e folder pageSize source s))"
  using sent_keeps [OF session_request_carries, of s "[]"]
  by (auto simp: getSpeeches_def send_def keeps_session_refl split: outcome.splits)

lemma getSpeech_keeps: "keeps_session s (snd (getSpeech e speechId s))"
  using sent_keeps [OF session_request_carries, of s "[]"]
  by (auto simp: getSpeech_def send_def keeps_session_refl split: outcome.splits)

lemma querySpeech_keeps: "keeps_session s (snd (querySpeech e query speechId sz s))"
  using sent_keeps [OF session_request_carries, of s "[]"]
  by (auto simp: querySpeech_def send_def keeps_session_refl split: outcome.splits)

lemma getNotificationSettings_keeps: "keeps_session s (snd (getNotificationSettings e s))"
  using sent_keeps [OF session_request_carries, of s "[]"]
  by (auto simp: getNotificationSettings_def send_def keeps_session_refl split: outcome.splits)

lemma listGroups_keeps: "keeps_session s (snd (listGroups e s))"
  using sent_keeps [OF session_request_carries, of s "[]"]
  by (auto simp: listGroups_def send_def keeps_session_refl split: outcome.splits)

lemma getFolders_keeps: "keeps_session s (snd (getFolders e s))"
  using sent_keeps [OF session_request_carries, of s "[]"]
  by (auto simp: getFolders_def send_def keeps_session_refl split: outcome.splits)

lemma moveToTrashBin_keeps: "keeps_session s (snd (moveToTrashBin e speechId s))"
  using sent_keeps [OF session_request_carries, of s "[(''x-csrftoken'', csrftoken s)]"]
  by (auto simp: moveToTrashBin_def send_def keeps_session_refl split: outcome.splits)

lemma createSpeaker_keeps: "keeps_session s (snd (createSpeaker e speakerName s))"
  using sent_keeps [OF session_request_carries, of s "[(''x-csrftoken'', csrftoken s)]"]
  by (auto simp: createSpeaker_def send_def keeps_session_refl split: outcome.splits)

lemma downloadSpeech_keeps: "keeps_session s (snd (downloadSpeech e speechId name fileFormat s))"
proof -
  have c: "carries (default_cookie s) (csrftoken s) (download_request s speechId fileFormat)"
    unfolding download_request_def by (rule session_request_carries) simp
  have w: "\<And>fn d. keeps_session s
      (s\<lparr>sent := sent s @ [download_request s speechId fileFormat], written := fn\<rparr>)"
    using c by (intro keeps_sessionI [where new = "[download_request s speechId fileFormat]"])
      simp_all
  show ?thesis
    using sent_keeps [OF c] w
    by (auto simp: downloadSpeech_def send_def keeps_session_refl Let_def
        split: outcome.splits option.splits)
qed

lemma getAllSpeeches_keeps:
  "keeps_session s (snd (getAllSpeeches e folder source maxSpeeches s))"
proof -
  have "snd (getAllSpeeches e folder source maxSpeeches s) = s
      \<or> snd (getAllSpeeches e folder source maxSpeeches s)
          = snd (getSpeeches e folder (JNum (min maxSpeeches 200)) source s)"
    by (auto simp: getAllSpeeches_def Let_def split: prod.splits sum.splits exn.splits)
  then show ?thesis
    using getSpeeches_keeps [of s e folder "JNum (min maxSpeeches 200)" source]
    by (auto simp: keeps_session_refl)
qed

lemma fetch_source_keeps:
  "keeps_session s (snd (fetch_source e folder m source all s))"
proof -
  have "snd (fetch_source e folder m source all s) = snd (getAllSpeeches e folder source m s)"
    by (auto simp: fetch_source_def Let_def split: prod.splits sum.splits)
  then show ?thesis by (simp add: getAllSpeeches_keeps)
qed

lemma fetch_sources_keeps:
  "keeps_session s (snd (fetch_sources e folder m sources all s))"
proof (induction sources arbitrary: all s)
  case Nil
  show ?case by (simp add: keeps_session_refl)
next
  case (Cons source sources)
  obtain all1 s1 where r: "fetch_source e folder m source all s = (all1, s1)"
    by (cases "fetch_source e folder m source all s")
  with fetch_source_keeps [of s e folder m source all] have "keeps_session s s1" by simp
  from keeps_session_trans [OF this Cons.IH [of s1 all1]] r show ?case by simp
qed

lemma getAllSpeechesFromAllSources_keeps:
  "keeps_session s (snd (getAllSpeechesFromAllSources e folder maxPerSource s))"
proof -
  let ?loop = "fetch_sources e folder maxPerSource [''owned'', ''shared'']
                [(''owned'', JArr []), (''shared'', JArr []), (''total'', JNum 0)] s"
  have "snd (getAllSpeechesFromAllSources e folder maxPerSource s) = s
      \<or> snd (getAllSpeechesFromAllSources e folder maxPerSource s) = snd ?loop"
    unfolding getAllSpeechesFromAllSources_def
    by (cases ?loop) (auto split: sum.splits)
  then show ?thesis
    using fetch_sources_keeps [of s e folder maxPerSource "[''owned'', ''shared'']"
            "[(''owned'', JArr []), (''shared'', JArr []), (''total'', JNum 0)]"]
    by (auto simp: keeps_session_refl)
qed

lemma finish_upload_keeps: "keeps_session s (snd (finish_upload e r s))"
proof -
  have c: "\<And>pr. carries (default_cookie s) (csrftoken s) (finish_request s pr)"
    unfolding finish_request_def by (rule session_request_carries) simp
  show ?thesis
    using sent_keeps [OF c]
    by (auto simp: finish_upload_def send_def keeps_session_refl
        split: sum.splits outcome.splits)
qed

lemma post_file_keeps: "keeps_session s (snd (post_file e pd f c s))"
proof -
  have c: "\<And>form. carries (default_cookie s) (csrftoken s) (post_request form)"
    by (simp add: carries_def post_request_def)
  have "snd (post_file e pd f c s) = s
      \<or> (\<exists>form. snd (post_file e pd f c s) = s\<lparr>sent := sent s @ [post_request form]\<rparr>)
      \<or> (\<exists>form r. snd (post_file e pd f c s)
            = snd (finish_upload e r (s\<lparr>sent := sent s @ [post_request form]\<rparr>)))"
    by (auto simp: post_file_def send_def Let_def split: sum.splits option.splits outcome.splits)
  then show ?thesis
    using sent_keeps [OF c] keeps_session_trans [OF sent_keeps [OF c] finish_upload_keeps]
    by (auto simp: keeps_session_refl)
qed

lemma uploadSpeech_keeps: "keeps_session s (snd (uploadSpeech e f c s))"
proof -
  let ?s1 = "s\<lparr>sent := sent s @ [upload_params_request s]\<rparr>"
  let ?s2 = "?s1\<lparr>sent := sent ?s1 @ [options_request ?s1]\<rparr>"
  have c1: "carries (default_cookie s) (csrftoken s) (upload_params_request s)"
    unfolding upload_params_request_def by (rule session_request_carries) simp
  have c2: "carries (default_cookie ?s1) (csrftoken ?s1) (options_request ?s1)"
    unfolding options_request_def by (rule session_request_carries) simp
  have k1: "keeps_session s ?s1" by (rule sent_keeps [OF c1])
  have k2: "keeps_session s ?s2" by (rule keeps_session_trans [OF k1 sent_keeps [OF c2]])
  have "snd (uploadSpeech e f c s) = s \<or> snd (uploadSpeech e f c s) = ?s1
      \<or> snd (uploadSpeech e f c s) = ?s2
      \<or> (\<exists>pd. snd (uploadSpeech e f c s) = snd (post_file e pd f c ?s2))"
    by (auto simp: uploadSpeech_def send_def split: outcome.splits sum.splits)
  then show ?thesis
    using k1 k2 keeps_session_trans [OF k2 post_file_keeps]
    by (auto simp: keeps_session_refl)
qed

lemma perform_keeps:
  assumes "\<not> is_login c"
  shows "keeps_session s (snd (perform e c s))"
  using assms
  by (cases c)
     (simp_all add: getUser_keeps getSpeakers_keeps getSpeeches_keeps getAllSpeeches_keeps
        getAllSpeechesFromAllSources_keeps getSpeech_keeps querySpeech_keeps uploadSpeech_keeps
        downloadSpeech_keeps moveToTrashBin_keeps createSpeaker_keeps
        getNotificationSettings_keeps listGroups_keeps getFolders_keeps)

lemma run_keeps:
  assumes "list_all (\<lambda>c. \<not> is_login c) cs"
  shows "keeps_session s (run e cs s)"
  using assms
proof (induction cs arbitrary: s)
  case Nil
  show ?case by (simp add: keeps_session_refl)
next
  case (Cons c cs)
  then have "keeps_session s (snd (perform e c s))" by (simp add: perform_keeps)
  moreover from Cons have "keeps_session (snd (perform e c s)) (run e cs (snd (perform e c s)))"
    by simp
  ultimately show ?case using keeps_session_trans by simp
qed

lemmas cookie_defs = extractCookies_def cookie_put_def cookie_pair_def obj_put_def is_index_def
  trim_def is_space_def setCookieHeader_def cookieString_def

lemmas login_run_defs = login_def login_request_def send_def session_request_def
  handleResponse_def scripted_def answer_def answer_with_cookies_def new_client_def
  API_BASE_URL_def

text \<open>
  Claim C3, where it fails. The first login sets the cookie \<^verbatim>\<open>sessionid=abc\<close>; the
  second login succeeds (the user id becomes \<^verbatim>\<open>u2\<close>) with a response that sets no
  cookie. The cookies of the client are then empty, but \<^verbatim>\<open>_setCookieHeader\<close> writes
  the default header only for a non-empty cookie object, so the request of the
  \<^verbatim>\<open>getSpeakers\<close> that follows still carries the first login's cookie.
\<close>

theorem stale_cookie_header_after_relogin:
  "cookies (run relogin_without_cookies [Login ''bob'' ''pw''] new_client) = [(''sessionid'', ''abc'')]
   \<and> userid (run relogin_without_cookies [Login ''bob'' ''pw'', Login ''bob'' ''pw''] new_client)
       = JStr ''u2''
   \<and> cookies (run relogin_without_cookies [Login ''bob'' ''pw'', Login ''bob'' ''pw''] new_client)
       = []
   \<and> map cookie
         (sent (run relogin_without_cookies [Login ''bob'' ''pw'', Login ''bob'' ''pw'', GetSpeakers]
                  new_client))
       = [None, Some ''sessionid=abc'', Some ''sessionid=abc'']"
  by (simp add: relogin_without_cookies_def login_run_defs cookie_defs getSpeakers_def
      isUseridInvalid_def)

text \<open>
  Claim C3, amended. A login that is answered with status 200 and a body whose
  \<^verbatim>\<open>userid\<close> can be read, on a client in any state (so also after an earlier login),
  replaces the user id by that of the body and the cookies by those of the response.
  When the response sets at least one cookie, the session's \<^verbatim>\<open>Cookie\<close> header becomes
  the serialisation of exactly these cookies, and every request sent by any later
  sequence of calls other than \<^verbatim>\<open>login\<close> carries that header or none, and as
  \<^verbatim>\<open>x-csrftoken\<close> the token among these cookies: nothing of an earlier login. When the
  response sets no cookie, the \<^verbatim>\<open>Cookie\<close> header is left as it was.
\<close>

theorem relogin_replaces_session:
  assumes "net e (sent s) (login_request s username password) = Responds r"
    and "status r = 200"
    and "js_get (data r) ''userid'' = Inr u"
    and "list_all (\<lambda>c. \<not> is_login c) cs"
  shows "let s2 = snd (login e username password s) in
           userid s2 = u \<and> cookies s2 = extractCookies r
         \<and> (extractCookies r \<noteq> [] \<longrightarrow>
              default_cookie s2 = Some (cookieString (extractCookies r))
            \<and> list_all (carries (Some (cookieString (extractCookies r)))
                          (case map_of (extractCookies r) ''csrftoken'' of
                             None \<Rightarrow> JUndefined | Some v \<Rightarrow> JStr v))
                (sent_since s2 (run e cs s2)))
         \<and> (extractCookies r = [] \<longrightarrow> default_cookie s2 = default_cookie s)"
proof -
  let ?s2 = "snd (login e username password s)"
  have s2: "?s2 = setCookieHeader
      (s\<lparr>sent := sent s @ [login_request s username password], userid := u,
          cookies := extractCookies r\<rparr>)"
    using assms(1-3) by (simp add: login_def send_def)
  have u: "userid ?s2 = u" and c: "cookies ?s2 = extractCookies r"
    by (simp_all add: s2 setCookieHeader_def)
  have d1: "extractCookies r \<noteq> [] \<Longrightarrow> default_cookie ?s2 = Some (cookieString (extractCookies r))"
    by (simp add: s2 setCookieHeader_def)
  have d0: "extractCookies r = [] \<Longrightarrow> default_cookie ?s2 = default_cookie s"
    by (simp add: s2 setCookieHeader_def)
  have "keeps_session ?s2 (run e cs ?s2)"
    by (rule run_keeps [OF assms(4)])
  then have "list_all (carries (default_cookie ?s2) (csrftoken ?s2)) (sent_since ?s2 (run e cs ?s2))"
    by (simp add: keeps_session_def)
  then have "extractCookies r \<noteq> [] \<Longrightarrow>
      list_all (carries (Some (cookieString (extractCookies r)))
                          (case map_of (extractCookies r) ''csrftoken'' of
                             None \<Rightarrow> JUndefined | Some v \<Rightarrow> JStr v))
                (sent_since ?s2 (run e cs ?s2))"
    using d1 c by (simp add: csrftoken_def)
  with u c d1 d0 show ?thesis by (simp add: Let_def)
qed

lemma second_login_cookies:
  "extractCookies second_login = [(''sessionid'', ''xyz''), (''csrftoken'', ''t2'')]"
  by (simp add: second_login_def answer_with_cookies_def cookie_defs)

lemma first_login_run:
  "snd (login relogin_with_cookies ''bob'' ''pw'' new_client) = after_first_login"
  by (simp add: relogin_with_cookies_def login_run_defs cookie_defs after_first_login_def)

lemma second_login_run:
  "snd (login relogin_with_cookies ''bob'' ''pw'' after_first_login) = after_second_login"
  by (simp add: relogin_with_cookies_def login_run_defs cookie_defs after_first_login_def
      after_second_login_def second_login_def)

lemma second_login_answer:
  "net relogin_with_cookies (sent after_first_login) (login_request after_first_login ''bob'' ''pw'')
     = Responds second_login"
  by (simp add: relogin_with_cookies_def scripted_def after_first_login_def)

lemma later_calls_run:
  "map (\<lambda>rq. (cookie rq, headers rq))
     (sent_since after_second_login
        (run relogin_with_cookies [GetSpeakers, MoveToTrashBin ''sp1''] after_second_login))
     = [(Some ''sessionid=xyz; csrftoken=t2'', []),
        (Some ''sessionid=xyz; csrftoken=t2'', [(''x-csrftoken'', JStr ''t2'')])]"
  by (simp add: relogin_with_cookies_def scripted_def answer_def after_second_login_def
      getSpeakers_def moveToTrashBin_def send_def session_request_def isUseridInvalid_def
      handleResponse_def sent_since_def csrftoken_def second_login_def)

theorem relogin_replaces_session_witness:
  "net relogin_with_cookies (sent after_first_login) (login_request after_first_login ''bob'' ''pw'')
     = Responds second_login
   \<and> status second_login = 200
   \<and> js_get (data second_login) ''userid'' = Inr (JStr ''u2'')
   \<and> extractCookies second_login = [(''sessionid'', ''xyz''), (''csrftoken'', ''t2'')]
   \<and> userid (snd (login relogin_with_cookies ''bob'' ''pw'' after_first_login)) = JStr ''u2''
   \<and> cookies (snd (login relogin_with_cookies ''bob'' ''pw'' after_first_login))
       = [(''sessionid'', ''xyz''), (''csrftoken'', ''t2'')]
   \<and> default_cookie (snd (login relogin_with_cookies ''bob'' ''pw'' after_first_login))
       = Some ''sessionid=xyz; csrftoken=t2''
   \<and> list_all (carries (Some ''sessionid=xyz; csrftoken=t2'') (JStr ''t2''))
        (sent_since after_second_login
           (run relogin_with_cookies [GetSpeakers, MoveToTrashBin ''sp1''] after_second_login))
   \<and> map (\<lambda>rq. (cookie rq, headers rq))
        (sent_since after_second_login
           (run relogin_with_cookies [GetSpeakers, MoveToTrashBin ''sp1''] after_second_login))
       = [(Some ''sessionid=xyz; csrftoken=t2'', []),
          (Some ''sessionid=xyz; csrftoken=t2'', [(''x-csrftoken'', JStr ''t2'')])]"
proof -
  have st: "status second_login = 200"
    and ui: "js_get (data second_login) ''userid'' = Inr (JStr ''u2'')"
    by (simp_all add: second_login_def answer_with_cookies_def)
  have nl: "list_all (\<lambda>c. \<not> is_login c) [GetSpeakers, MoveToTrashBin ''sp1'']" by simp
  from relogin_replaces_session [OF second_login_answer st ui nl] later_calls_run
  show ?thesis
    by (simp add: Let_def second_login_run second_login_cookies second_login_answer st ui
        cookieString_def)
qed

subsection \<open>Error statuses\<close>

text \<open>
  Claim C2, where it fails. Answered with status 404, \<^verbatim>\<open>downloadSpeech\<close> throws; and
  \<^verbatim>\<open>getAllSpeeches\<close> throws when the \<^verbatim>\<open>getSpeeches\<close> underneath it returns status
  500. Neither returns the envelope of the response.
\<close>

theorem error_status_thrown_by_download_and_getAllSpeeches:
  "fst (downloadSpeech (always (answer 404 (JStr ''Not Found''))) ''id1'' None ''txt'' logged_in)
     = Inl (OtterAIException
              ''Download speech failed: Got response status 404 when attempting to download id1'')
   \<and> fst (getAllSpeeches (always (answer 500 (JObj [(''error'', JStr ''down'')]))) (JNum 0) ''owned''
            1000 logged_in)
     = Inl (OtterAIException ''Get all speeches failed: Failed to get speeches: 500'')"
  by (simp add: downloadSpeech_def download_request_def getAllSpeeches_def getSpeeches_def
      send_def always_def answer_def logged_in_def isUseridInvalid_def handleResponse_def
      show_int_def Let_def)

text \<open>
  The responses received by a computation that appended requests to the log are the
  replies to these requests. A method that sends one request returns the envelope of
  the response, whatever its status.
\<close>

lemma replies_append:
  "replies e log (xs @ ys) = replies e log xs @ replies e (log @ xs) ys"
  by (induction xs arbitrary: log) simp_all

lemma received_new:
  assumes "sent s' = sent s @ new"
  shows "received e s s' = replies e (sent s) new"
  using assms by (simp add: received_def sent_since_def)

lemma received_same: "received e s s = []"
  by (simp add: received_def sent_since_def)

lemma received_sent:
  "received e s (s\<lparr>sent := sent s @ [rq]\<rparr>)
     = (case net e (sent s) rq of Responds r \<Rightarrow> [r] | Throws _ \<Rightarrow> [])"
  by (simp add: received_def sent_since_def)

lemmas single_defs = send_def returns_error_envelopes_def received_sent received_same
  handleResponse_def

lemma login_envelopes: "returns_error_envelopes e s (login e username password s)"
proof (cases "net e (sent s) (login_request s username password)")
  case (Throws m)
  then show ?thesis by (simp add: login_def single_defs)
next
  case (Responds r)
  show ?thesis
  proof (cases "status r = 200")
    case False
    with Responds show ?thesis by (simp add: login_def single_defs)
  next
    case True
    then have ok: "\<not> non_2xx (status r)" by (simp add: non_2xx_def)
    have sn: "sent (snd (login e username password s)) = sent s @ [login_request s username password]"
      using Responds True
      by (auto simp: login_def send_def setCookieHeader_def split: sum.splits)
    show ?thesis
      unfolding returns_error_envelopes_def received_new [OF sn]
      using Responds ok by simp
  qed
qed

lemma getUser_envelopes: "returns_error_envelopes e s (getUser e s)"
  by (auto simp: getUser_def single_defs split: outcome.splits)

lemma getSpeakers_envelopes: "returns_error_envelopes e s (getSpeakers e s)"
  by (auto simp: getSpeakers_def single_defs split: outcome.splits)

lemma getSpeeches_envelopes:
  "returns_error_envelopes e s (getSpeeches e folder pageSize source s)"
  by (auto simp: getSpeeches_def single_defs split: outcome.splits)

lemma getSpeech_envelopes: "returns_error_envelopes e s (getSpeech e speechId s)"
  by (auto simp: getSpeech_def single_defs split: outcome.splits)

lemma querySpeech_envelopes: "returns_error_envelopes e s (querySpeech e query speechId sz s)"
  by (auto simp: querySpeech_def single_defs split: outcome.splits)

lemma moveToTrashBin_envelopes: "returns_error_envelopes e s (moveToTrashBin e speechId s)"
  by (auto simp: moveToTrashBin_def single_defs split: outcome.splits)

lemma createSpeaker_envelopes: "returns_error_envelopes e s (createSpeaker e speakerName s)"
  by (auto simp: createSpeaker_def single_defs split: outcome.splits)

lemma getNotificationSettings_envelopes:
  "returns_error_envelopes e s (getNotificationSettings e s)"
  by (auto simp: getNotificationSettings_def single_defs split: outcome.splits)

lemma listGroups_envelopes: "returns_error_envelopes e s (listGroups e s)"
  by (auto simp: listGroups_def single_defs split: outcome.splits)

lemma getFolders_envelopes: "returns_error_envelopes e s (getFolders e s)"
  by (auto simp: getFolders_def single_defs split: outcome.splits)

text \<open>
  \<^verbatim>\<open>uploadSpeech\<close> goes on to its next step only after a 200 (a 201 from the object
  store), so a response with an error status is the last one it receives, and it is
  returned: from the parameter request, the preflight, the POST and the finish call.
\<close>

lemma envelopes_after:
  assumes "net e (sent s) rq = Responds r"
    and "\<not> non_2xx (status r)"
    and "returns_error_envelopes e (s\<lparr>sent := sent s @ [rq]\<rparr>) res"
    and "sent (snd res) = sent (s\<lparr>sent := sent s @ [rq]\<rparr>) @ new"
  shows "returns_error_envelopes e s res"
proof -
  have a: "sent (snd res) = sent s @ (rq # new)" using assms(4) by simp
  have b: "received e (s\<lparr>sent := sent s @ [rq]\<rparr>) (snd res) = replies e (sent s @ [rq]) new"
    using received_new [OF assms(4), of e] by simp
  show ?thesis
    using assms(1-3)
    unfolding returns_error_envelopes_def received_new [OF a] b
    by simp
qed

lemma finish_upload_envelopes: "returns_error_envelopes e s (finish_upload e r s)"
  by (auto simp: finish_upload_def single_defs split: sum.splits outcome.splits)

lemma post_file_envelopes: "returns_error_envelopes e s (post_file e pd f c s)"
proof (cases "js_get pd ''success_action_status''")
  case (Inl te)
  then show ?thesis by (simp add: post_file_def single_defs)
next
  case (Inr st)
  show ?thesis
  proof (cases "own_props pd")
    case None
    with Inr show ?thesis by (simp add: post_file_def single_defs)
  next
    case (Some kvs)
    let ?rq = "post_request (upload_form (obj_delete ''form_action''
              (obj_put ''success_action_status'' (JStr (js_String st)) kvs)) f c)"
    let ?s1 = "s\<lparr>sent := sent s @ [?rq]\<rparr>"
    show ?thesis
    proof (cases "net e (sent s) ?rq")
      case (Throws m)
      with Inr Some show ?thesis by (simp add: post_file_def single_defs Let_def)
    next
      case (Responds r)
      show ?thesis
      proof (cases "status r = 201")
        case False
        with Inr Some Responds show ?thesis by (simp add: post_file_def single_defs Let_def)
      next
        case True
        then have ok: "\<not> non_2xx (status r)" by (simp add: non_2xx_def)
        have eq: "post_file e pd f c s = finish_upload e r ?s1"
          using Inr Some Responds True by (simp add: post_file_def send_def Let_def)
        obtain new where n: "sent (snd (finish_upload e r ?s1)) = sent ?s1 @ new"
          using finish_upload_sent [of e r ?s1] by blast
        show ?thesis
          unfolding eq
          by (rule envelopes_after [OF Responds ok finish_upload_envelopes n])
      qed
    qed
  qed
qed

lemma uploadSpeech_envelopes: "returns_error_envelopes e s (uploadSpeech e f c s)"
proof (cases "isUseridInvalid s")
  case True
  then show ?thesis by (simp add: uploadSpeech_def single_defs)
next
  case valid: False
  let ?rq1 = "upload_params_request s"
  let ?s1 = "s\<lparr>sent := sent s @ [?rq1]\<rparr>"
  let ?rq2 = "options_request ?s1"
  let ?s2 = "?s1\<lparr>sent := sent ?s1 @ [?rq2]\<rparr>"
  show ?thesis
  proof (cases "net e (sent s) ?rq1")
    case (Throws m)
    with valid show ?thesis by (simp add: uploadSpeech_def single_defs)
  next
    case r1: (Responds response)
    show ?thesis
    proof (cases "status response = 200")
      case False
      with valid r1 show ?thesis by (simp add: uploadSpeech_def single_defs)
    next
      case s200: True
      then have ok1: "\<not> non_2xx (status response)" by (simp add: non_2xx_def)
      show ?thesis
      proof (cases "js_get (data response) ''data''")
        case (Inl te)
        with valid r1 s200 ok1 show ?thesis by (simp add: uploadSpeech_def single_defs)
      next
        case pd: (Inr paramsData)
        have step2: "returns_error_envelopes e ?s1 (uploadSpeech e f c s)
            \<and> (\<exists>new. sent (snd (uploadSpeech e f c s)) = sent ?s1 @ new)"
        proof (cases "net e (sent ?s1) ?rq2")
          case (Throws m)
          with valid r1 s200 pd show ?thesis
            by (simp add: uploadSpeech_def send_def returns_error_envelopes_def received_def
                sent_since_def)
        next
          case r2: (Responds optionsResponse)
          show ?thesis
          proof (cases "status optionsResponse = 200")
            case False
            with valid r1 s200 pd r2 show ?thesis
              by (simp add: uploadSpeech_def send_def returns_error_envelopes_def received_def
                  sent_since_def handleResponse_def)
          next
            case o200: True
            then have ok2: "\<not> non_2xx (status optionsResponse)" by (simp add: non_2xx_def)
            have eq: "uploadSpeech e f c s = post_file e paramsData f c ?s2"
              using valid r1 s200 pd r2 o200 by (simp add: uploadSpeech_def send_def)
            obtain new where n: "sent (snd (post_file e paramsData f c ?s2)) = sent ?s2 @ new"
              using post_file_sent [of e paramsData f c ?s2] by blast
            have "returns_error_envelopes e ?s1 (post_file e paramsData f c ?s2)"
              by (rule envelopes_after [OF r2 ok2 post_file_envelopes n])
            moreover have "sent (snd (post_file e paramsData f c ?s2)) = sent ?s1 @ (?rq2 # new)"
              using n by simp
            ultimately show ?thesis unfolding eq by blast
          qed
        qed
        then obtain new where n: "sent (snd (uploadSpeech e f c s)) = sent ?s1 @ new" by blast
        from step2 show ?thesis
          by (intro envelopes_after [OF r1 ok1 _ n]) simp
      qed
    qed
  qed
qed

text \<open>
  \<^verbatim>\<open>downloadSpeech\<close> and \<^verbatim>\<open>getAllSpeeches\<close> throw on every status other than 200,
  and the loop over the sources catches what \<^verbatim>\<open>getAllSpeeches\<close> throws.
\<close>

lemma downloadSpeech_throws:
  "list_all (\<lambda>r. status r \<noteq> 200 \<longrightarrow>
       fst (downloadSpeech e speechId name fileFormat s)
         = Inl (OtterAIException (''Download speech failed: Got response status '' @
                  show_int (status r) @ '' when attempting to download '' @ speechId)))
     (received e s (snd (downloadSpeech e speechId name fileFormat s)))"
proof (cases "isUseridInvalid s")
  case True
  then show ?thesis by (simp add: downloadSpeech_def received_same)
next
  case valid: False
  show ?thesis
  proof (cases "net e (sent s) (download_request s speechId fileFormat)")
    case (Throws m)
    with valid show ?thesis by (simp add: downloadSpeech_def send_def received_sent)
  next
    case (Responds r)
    have sn: "sent (snd (downloadSpeech e speechId name fileFormat s))
        = sent s @ [download_request s speechId fileFormat]"
      using valid Responds
      by (auto simp: downloadSpeech_def send_def Let_def split: option.splits)
    have "status r \<noteq> 200 \<Longrightarrow> fst (downloadSpeech e speechId name fileFormat s)
         = Inl (OtterAIException (''Download speech failed: Got response status '' @
                  show_int (status r) @ '' when attempting to download '' @ speechId))"
      using valid Responds by (simp add: downloadSpeech_def send_def Let_def)
    then show ?thesis
      unfolding received_new [OF sn] using Responds by simp
  qed
qed

lemma getAllSpeeches_throws:
  "list_all (\<lambda>r. status r \<noteq> 200 \<longrightarrow>
       fst (getAllSpeeches e folder source maxSpeeches s)
         = Inl (OtterAIException (''Get all speeches failed: Failed to get speeches: '' @
                  show_int (status r))))
     (received e s (snd (getAllSpeeches e folder source maxSpeeches s)))"
proof (cases "isUseridInvalid s")
  case True
  then show ?thesis by (simp add: getAllSpeeches_def received_same)
next
  case valid: False
  let ?rq = "session_request s GET (API_BASE_URL @ ''speeches'')
                      [(''userid'', userid s), (''folder'', folder),
                       (''page_size'', JNum (min maxSpeeches 200)), (''source'', JStr source)]
                      [] NoBody"
  show ?thesis
  proof (cases "net e (sent s) ?rq")
    case (Throws m)
    with valid show ?thesis
      by (simp add: getAllSpeeches_def getSpeeches_def send_def received_sent Let_def)
  next
    case (Responds r)
    have sn: "sent (snd (getAllSpeeches e folder source maxSpeeches s)) = sent s @ [?rq]"
      using valid Responds
      by (auto simp: getAllSpeeches_def getSpeeches_def send_def Let_def split: sum.splits)
    have "status r \<noteq> 200 \<Longrightarrow> fst (getAllSpeeches e folder source maxSpeeches s)
         = Inl (OtterAIException (''Get all speeches failed: Failed to get speeches: '' @
                  show_int (status r)))"
      using valid Responds
      by (simp add: getAllSpeeches_def getSpeeches_def send_def handleResponse_def Let_def)
    then show ?thesis
      unfolding received_new [OF sn] using Responds by simp
  qed
qed

lemma getAllSpeeches_fails_without_200:
  assumes "list_all (\<lambda>r. status r \<noteq> 200) (received e s (snd (getAllSpeeches e folder source m s)))"
  shows "\<exists>x. fst (getAllSpeeches e folder source m s) = Inl x"
proof (cases "isUseridInvalid s")
  case True
  then show ?thesis by (simp add: getAllSpeeches_def)
next
  case valid: False
  let ?rq = "session_request s GET (API_BASE_URL @ ''speeches'')
                      [(''userid'', userid s), (''folder'', folder),
                       (''page_size'', JNum (min m 200)), (''source'', JStr source)] [] NoBody"
  show ?thesis
  proof (cases "net e (sent s) ?rq")
    case (Throws x)
    with valid show ?thesis
      by (simp add: getAllSpeeches_def getSpeeches_def send_def Let_def)
  next
    case (Responds r)
    have sn: "sent (snd (getAllSpeeches e folder source m s)) = sent s @ [?rq]"
      using valid Responds
      by (auto simp: getAllSpeeches_def getSpeeches_def send_def Let_def split: sum.splits)
    from assms have "status r \<noteq> 200"
      unfolding received_new [OF sn] using Responds by simp
    with valid Responds show ?thesis
      by (simp add: getAllSpeeches_def getSpeeches_def send_def handleResponse_def Let_def)
  qed
qed

lemma received_trans:
  assumes "keeps_session s s1" and "keeps_session s1 s2"
  shows "received e s s2 = received e s s1 @ received e s1 s2"
proof -
  have a: "sent s1 = sent s @ sent_since s s1" by (rule keeps_session_sent [OF assms(1)])
  have b: "sent s2 = sent s1 @ sent_since s1 s2" by (rule keeps_session_sent [OF assms(2)])
  have c: "sent s2 = sent s @ (sent_since s s1 @ sent_since s1 s2)" using a b by simp
  show ?thesis
    unfolding received_new [OF c] replies_append
    using a by (simp add: received_def)
qed

lemma fetch_source_state:
  "snd (fetch_source e folder m source all s) = snd (getAllSpeeches e folder source m s)"
  by (auto simp: fetch_source_def Let_def split: prod.splits sum.splits)

lemma fetch_source_failed:
  assumes "fst (getAllSpeeches e folder source m s) = Inl x"
  shows "fst (fetch_source e folder m source all s) = obj_put source (JArr []) all"
  using assms by (cases "getAllSpeeches e folder source m s") (simp add: fetch_source_def)

lemma aggregate_without_200:
  assumes "truthy (userid s)"
    and "list_all (\<lambda>r. status r \<noteq> 200)
           (received e s (snd (getAllSpeechesFromAllSources e folder maxPerSource s)))"
  shows "fst (getAllSpeechesFromAllSources e folder maxPerSource s)
           = Inr \<lparr>status = 200, data = JObj
              [(''status'', JStr ''OK''),
               (''speeches_by_source'', JObj
                  [(''owned'', JArr []), (''shared'', JArr []), (''total'', JNum 0)]),
               (''all_speeches'', JArr []),
               (''summary'', JObj
                  [(''owned_count'', JNum 0),
                   (''shared_count'', JNum 0),
                   (''total_count'', JNum 0)])]\<rparr>"
proof -
  let ?all0 = "[(''owned'', JArr []), (''shared'', JArr []), (''total'', JNum 0)]"
  let ?s1 = "snd (getAllSpeeches e folder ''owned'' maxPerSource s)"
  let ?s2 = "snd (getAllSpeeches e folder ''shared'' maxPerSource ?s1)"
  have valid: "\<not> isUseridInvalid s" using assms(1) by (simp add: isUseridInvalid_def)
  obtain all1 where f1: "fetch_source e folder maxPerSource ''owned'' ?all0 s = (all1, ?s1)"
    using fetch_source_state [of e folder maxPerSource "''owned''" ?all0 s]
    by (cases "fetch_source e folder maxPerSource ''owned'' ?all0 s") simp
  obtain all2 where f2: "fetch_source e folder maxPerSource ''shared'' all1 ?s1 = (all2, ?s2)"
    using fetch_source_state [of e folder maxPerSource "''shared''" all1 ?s1]
    by (cases "fetch_source e folder maxPerSource ''shared'' all1 ?s1") simp
  have loop: "fetch_sources e folder maxPerSource [''owned'', ''shared''] ?all0 s = (all2, ?s2)"
    using f1 f2 by simp
  have st: "snd (getAllSpeechesFromAllSources e folder maxPerSource s) = ?s2"
    using valid loop by (auto simp: getAllSpeechesFromAllSources_def split: sum.splits)
  have "received e s ?s2 = received e s ?s1 @ received e ?s1 ?s2"
    by (rule received_trans [OF getAllSpeeches_keeps getAllSpeeches_keeps])
  with assms(2) st have r1: "list_all (\<lambda>r. status r \<noteq> 200) (received e s ?s1)"
    and r2: "list_all (\<lambda>r. status r \<noteq> 200) (received e ?s1 ?s2)"
    by simp_all
  from getAllSpeeches_fails_without_200 [OF r1] f1
  have a1: "all1 = ?all0"
    using fetch_source_failed [of e folder "''owned''" maxPerSource s _ ?all0]
    by (auto simp: obj_put_def)
  from getAllSpeeches_fails_without_200 [OF r2] f2
  have a2: "all2 = ?all0"
    using fetch_source_failed [of e folder "''shared''" maxPerSource ?s1 _ all1]
    by (auto simp: obj_put_def a1)
  show ?thesis
    using valid loop a2
    by (simp add: getAllSpeechesFromAllSources_def own_prop_def js_get_opt_def)
qed

lemmas upload_run_defs = uploadSpeech_def post_file_def finish_upload_def scripted_def
  send_def isUseridInvalid_def logged_in_def answer_def handleResponse_def
  upload_params_request_def options_request_def post_request_def finish_request_def
  session_request_def upload_form_def obj_put_def obj_delete_def basename_def show_int_def
  js_get_opt_def Let_def received_def sent_since_def

lemma post_refused_run:
  "fst (uploadSpeech post_refused ''media/talk.mp4'' ''audio/mp4'' logged_in)
     = Inr \<lparr>status = 403, data = JStr ''AccessDenied''\<rparr>"
  "map status (received post_refused logged_in
                 (snd (uploadSpeech post_refused ''media/talk.mp4'' ''audio/mp4'' logged_in)))
     = [200, 200, 403]"
  by (simp_all add: post_refused_def upload_run_defs)

lemma finish_failed_run:
  "fst (uploadSpeech finish_failed ''media/talk.mp4'' ''audio/mp4'' logged_in)
     = Inr \<lparr>status = 500, data = JStr ''Internal Server Error''\<rparr>"
  "map status (received finish_failed logged_in
                 (snd (uploadSpeech finish_failed ''media/talk.mp4'' ''audio/mp4'' logged_in)))
     = [200, 200, 201, 500]"
  by (simp_all add: finish_failed_def upload_run_defs)

lemma no_content_download:
  "received (always no_content) logged_in
     (snd (downloadSpeech (always no_content) ''id1'' None ''txt'' logged_in)) = [no_content]"
  by (simp add: downloadSpeech_def download_request_def send_def always_def no_content_def
      answer_def logged_in_def isUseridInvalid_def received_def sent_since_def Let_def)

lemma not_found_runs:
  "received (always not_found) logged_in (snd (getSpeakers (always not_found) logged_in))
     = [not_found]"
  "received (always not_found) logged_in
     (snd (getAllSpeeches (always not_found) (JNum 0) ''owned'' 1000 logged_in)) = [not_found]"
  "received (always not_found) logged_in
     (snd (getAllSpeechesFromAllSources (always not_found) (JNum 0) 500 logged_in))
     = [not_found, not_found]"
  by (simp_all add: getSpeakers_def getAllSpeeches_def getSpeeches_def
      getAllSpeechesFromAllSources_def fetch_source_def send_def always_def not_found_def
      answer_def logged_in_def isUseridInvalid_def handleResponse_def received_def
      sent_since_def session_request_def Let_def js_get_opt_def obj_put_def own_prop_def)

text \<open>
  Claim C2, amended. Every response with a status outside 200 to 299 that \<^verbatim>\<open>login\<close>,
  \<^verbatim>\<open>getUser\<close>, \<^verbatim>\<open>getSpeakers\<close>, \<^verbatim>\<open>getSpeeches\<close>, \<^verbatim>\<open>getSpeech\<close>,
  \<^verbatim>\<open>querySpeech\<close>, \<^verbatim>\<open>uploadSpeech\<close> (to any of its four requests),
  \<^verbatim>\<open>moveToTrashBin\<close>, \<^verbatim>\<open>createSpeaker\<close>, \<^verbatim>\<open>getNotificationSettings\<close>,
  \<^verbatim>\<open>listGroups\<close> or \<^verbatim>\<open>getFolders\<close> receives is returned by it as the envelope of
  that response, and nothing is thrown. \<^verbatim>\<open>downloadSpeech\<close>, when its request is
  answered with a status N other than 200, throws
  \<^verbatim>\<open>Download speech failed: Got response status N when attempting to download ID\<close>;
  \<^verbatim>\<open>getAllSpeeches\<close>, when its request is answered with a status N other than 200,
  throws \<^verbatim>\<open>Get all speeches failed: Failed to get speeches: N\<close>; and
  \<^verbatim>\<open>getAllSpeechesFromAllSources\<close>, on a client with a valid user id, returns status
  200 with empty lists when none of its requests is answered with status 200.
\<close>

theorem error_status_envelopes_and_exceptions:
  "returns_error_envelopes e s (login e username password s)
   \<and> returns_error_envelopes e s (getUser e s)
   \<and> returns_error_envelopes e s (getSpeakers e s)
   \<and> returns_error_envelopes e s (getSpeeches e folder pageSize source s)
   \<and> returns_error_envelopes e s (getSpeech e speechId s)
   \<and> returns_error_envelopes e s (querySpeech e query speechId sz s)
   \<and> returns_error_envelopes e s (uploadSpeech e fileName contentType s)
   \<and> returns_error_envelopes e s (moveToTrashBin e speechId s)
   \<and> returns_error_envelopes e s (createSpeaker e speakerName s)
   \<and> returns_error_envelopes e s (getNotificationSettings e s)
   \<and> returns_error_envelopes e s (listGroups e s)
   \<and> returns_error_envelopes e s (getFolders e s)
   \<and> list_all (\<lambda>r. status r \<noteq> 200 \<longrightarrow>
          fst (downloadSpeech e speechId name fileFormat s)
            = Inl (OtterAIException (''Download speech failed: Got response status '' @
                     show_int (status r) @ '' when attempting to download '' @ speechId)))
        (received e s (snd (downloadSpeech e speechId name fileFormat s)))
   \<and> list_all (\<lambda>r. status r \<noteq> 200 \<longrightarrow>
          fst (getAllSpeeches e folder source maxSpeeches s)
            = Inl (OtterAIException (''Get all speeches failed: Failed to get speeches: '' @
                     show_int (status r))))
        (received e s (snd (getAllSpeeches e folder source maxSpeeches s)))
   \<and> (truthy (userid s) \<longrightarrow>
        list_all (\<lambda>r. status r \<noteq> 200)
          (received e s (snd (getAllSpeechesFromAllSources e folder maxPerSource s))) \<longrightarrow>
        fst (getAllSpeechesFromAllSources e folder maxPerSource s)
          = Inr \<lparr>status = 200, data = JObj
              [(''status'', JStr ''OK''),
               (''speeches_by_source'', JObj
                  [(''owned'', JArr []), (''shared'', JArr []), (''total'', JNum 0)]),
               (''all_speeches'', JArr []),
               (''summary'', JObj
                  [(''owned_count'', JNum 0),
                   (''shared_count'', JNum 0),
                   (''total_count'', JNum 0)])]\<rparr>)"
  by (intro conjI impI login_envelopes getUser_envelopes getSpeakers_envelopes
      getSpeeches_envelopes getSpeech_envelopes querySpeech_envelopes uploadSpeech_envelopes
      moveToTrashBin_envelopes createSpeaker_envelopes getNotificationSettings_envelopes
      listGroups_envelopes getFolders_envelopes downloadSpeech_throws getAllSpeeches_throws
      aggregate_without_200)

theorem error_status_envelopes_and_exceptions_witness:
  "non_2xx (status not_found)
   \<and> fst (getSpeakers (always not_found) logged_in)
       = Inr \<lparr>status = 404, data = JStr ''Not Found''\<rparr>
   \<and> fst (uploadSpeech post_refused ''media/talk.mp4'' ''audio/mp4'' logged_in)
       = Inr \<lparr>status = 403, data = JStr ''AccessDenied''\<rparr>
   \<and> fst (uploadSpeech finish_failed ''media/talk.mp4'' ''audio/mp4'' logged_in)
       = Inr \<lparr>status = 500, data = JStr ''Internal Server Error''\<rparr>
   \<and> status no_content = 204
   \<and> fst (downloadSpeech (always no_content) ''id1'' None ''txt'' logged_in)
       = Inl (OtterAIException
                ''Download speech failed: Got response status 204 when attempting to download id1'')
   \<and> fst (getAllSpeeches (always not_found) (JNum 0) ''owned'' 1000 logged_in)
       = Inl (OtterAIException ''Get all speeches failed: Failed to get speeches: 404'')
   \<and> truthy (userid logged_in)
   \<and> fst (getAllSpeechesFromAllSources (always not_found) (JNum 0) 500 logged_in)
       = Inr \<lparr>status = 200, data = JObj
              [(''status'', JStr ''OK''),
               (''speeches_by_source'', JObj
                  [(''owned'', JArr []), (''shared'', JArr []), (''total'', JNum 0)]),
               (''all_speeches'', JArr []),
               (''summary'', JObj
                  [(''owned_count'', JNum 0),
                   (''shared_count'', JNum 0),
                   (''total_count'', JNum 0)])]\<rparr>"
proof -
  note t = error_status_envelopes_and_exceptions
  have nf: "non_2xx (status not_found)" "status not_found = 404" "data not_found = JStr ''Not Found''"
    "status not_found \<noteq> 200"
    by (simp_all add: not_found_def answer_def non_2xx_def)
  have nc: "status no_content = 204" "status no_content \<noteq> 200"
    by (simp_all add: no_content_def answer_def)
  have u: "truthy (userid logged_in)" by (simp add: logged_in_def)
  have a: "fst (getSpeakers (always not_found) logged_in)
       = Inr \<lparr>status = 404, data = JStr ''Not Found''\<rparr>"
    using t [of "always not_found" logged_in] nf
    by (simp add: returns_error_envelopes_def not_found_runs)
  have d: "fst (downloadSpeech (always no_content) ''id1'' None ''txt'' logged_in)
       = Inl (OtterAIException
                ''Download speech failed: Got response status 204 when attempting to download id1'')"
    using t [of "always no_content" logged_in _ _ _ _ _ "''id1''" _ _ _ _ _ None "''txt''"] nc
    by (simp add: no_content_download show_int_def)
  have g: "fst (getAllSpeeches (always not_found) (JNum 0) ''owned'' 1000 logged_in)
       = Inl (OtterAIException ''Get all speeches failed: Failed to get speeches: 404'')"
    using t [of "always not_found" logged_in _ _ "JNum 0" _ "''owned''" _ _ _ _ _ _ _ _ 1000] nf
    by (simp add: not_found_runs show_int_def)
  have ag: "fst (getAllSpeechesFromAllSources (always not_found) (JNum 0) 500 logged_in)
       = Inr \<lparr>status = 200, data = JObj
              [(''status'', JStr ''OK''),
               (''speeches_by_source'', JObj
                  [(''owned'', JArr []), (''shared'', JArr []), (''total'', JNum 0)]),
               (''all_speeches'', JArr []),
               (''summary'', JObj
                  [(''owned_count'', JNum 0),
                   (''shared_count'', JNum 0),
                   (''total_count'', JNum 0)])]\<rparr>"
    using t [of "always not_found" logged_in _ _ "JNum 0" _ _ _ _ _ _ _ _ _ _ _ 500] nf u
    by (simp add: not_found_runs)
  show ?thesis
    using nf(1) a post_refused_run(1) finish_failed_run(1) nc(1) d g u ag by simp
qed

end
